theory Spec2Isabelle
  imports Main
begin

section \<open>DocSuite: data model\<close>

text \<open>
  The embedding follows \<^verbatim>\<open>src/DocSuite.ts\<close>. Strings are lists of 8-bit characters
  (JavaScript code units below 256); page, sheet and slide numbers are natural numbers.
\<close>

datatype contentType = Text | Csv | Image

text \<open>\<^verbatim>\<open>type: null\<close> is \<open>None\<close>; an omitted optional property is \<open>None\<close> as well.\<close>

record ExtractionResult =
  type :: "contentType option"
  fileName :: string
  page :: nat
  contents :: "string option"
  error :: "string option"
  isFullPage :: "bool option"

text \<open>
  A thrown value (or the reason of a rejected promise): \<open>ErrorObj m\<close> is an instance of
  \<^verbatim>\<open>Error\<close> whose \<^verbatim>\<open>message\<close> is \<open>m\<close>; \<open>NonError s\<close> is any other value with
  \<^verbatim>\<open>String(value)\<close> equal to \<open>s\<close>; \<open>Unprintable\<close> is a value on which \<^verbatim>\<open>String\<close> itself
  throws (an object without a usable \<^verbatim>\<open>toString\<close>).
\<close>

datatype thrown = ErrorObj string | NonError string | Unprintable

text \<open>\<^verbatim>\<open>e instanceof Error ? e.message : fallback\<close>\<close>

definition message_or :: "thrown \<Rightarrow> string \<Rightarrow> string" where
  "message_or e fallback =
     (case e of ErrorObj m \<Rightarrow> m | NonError s \<Rightarrow> fallback | Unprintable \<Rightarrow> fallback)"

text \<open>\<^verbatim>\<open>error instanceof Error ? error.message : String(error)\<close>, which throws a
  \<^verbatim>\<open>TypeError\<close> when \<^verbatim>\<open>String\<close> does (the text of the message is the engine's).\<close>

definition message_or_String :: "thrown \<Rightarrow> thrown + string" where
  "message_or_String e =
     (case e of
        ErrorObj m \<Rightarrow> Inr m
      | NonError s \<Rightarrow> Inr s
      | Unprintable \<Rightarrow> Inl (ErrorObj ''Cannot convert object to primitive value''))"

text \<open>
  Values that can be registered as a post-processor context (\<^verbatim>\<open>context?: any\<close>).
  \<^verbatim>\<open>undefined\<close> is the absent context and is not a \<open>jsval\<close>; numbers are restricted
  to integers; \<open>JObj a\<close> is a reference to the object at address \<open>a\<close>.
\<close>

datatype jsval = JNull | JBool bool | JNum int | JStr string | JObj nat

text \<open>JavaScript truthiness, as tested by the conditional operator.\<close>

fun truthy :: "jsval \<Rightarrow> bool" where
  "truthy JNull = False"
| "truthy (JBool b) = b"
| "truthy (JNum n) = (n \<noteq> 0)"
| "truthy (JStr s) = (s \<noteq> [])"
| "truthy (JObj a) = True"

section \<open>String helpers of the platform\<close>

text \<open>\<^verbatim>\<open>String.prototype.toLowerCase\<close> on code units below 256.\<close>

definition lowerChar :: "char \<Rightarrow> char" where
  "lowerChar c = (let n = (of_char c :: nat) in
     if (65 \<le> n \<and> n \<le> 90) \<or> (192 \<le> n \<and> n \<le> 222 \<and> n \<noteq> 215)
     then char_of (n + 32) else c)"

definition toLowerCase :: "string \<Rightarrow> string" where
  "toLowerCase s = map lowerChar s"

definition startsWith :: "string \<Rightarrow> string \<Rightarrow> bool" where
  "startsWith s p = (take (length p) s = p)"

text \<open>White space and line terminators below 256: the class \<^verbatim>\<open>\s\<close> and what
  \<^verbatim>\<open>trim\<close> strips.\<close>

definition isSpace :: "char \<Rightarrow> bool" where
  "isSpace c = (let n = (of_char c :: nat) in (9 \<le> n \<and> n \<le> 13) \<or> n = 32 \<or> n = 160)"

definition isDigit :: "char \<Rightarrow> bool" where
  "isDigit c = (let n = (of_char c :: nat) in 48 \<le> n \<and> n \<le> 57)"

definition trim :: "string \<Rightarrow> string" where
  "trim s = rev (dropWhile isSpace (rev (dropWhile isSpace s)))"

text \<open>\<^verbatim>\<open>Array.prototype.join\<close>\<close>

fun join :: "string \<Rightarrow> string list \<Rightarrow> string" where
  "join sep [] = []"
| "join sep [x] = x"
| "join sep (x # y # ys) = x @ sep @ join sep (y # ys)"

text \<open>Decimal rendering of a number inside a template literal.\<close>

fun show_nat :: "nat \<Rightarrow> string" where
  "show_nat n = (if n < 10 then [''0123456789'' ! n]
     else show_nat (n div 10) @ [''0123456789'' ! (n mod 10)])"

declare show_nat.simps [simp del]

text \<open>\<^verbatim>\<open>parseInt\<close> on a string of decimal digits (the capture of \<^verbatim>\<open>(\d+)\<close>), as an exact
  number: the rounding of very long digit strings never turns a count into 0 or back.\<close>

definition parseInt :: "string \<Rightarrow> nat" where
  "parseInt ds = foldl (\<lambda>acc c. acc * 10 + (of_char c - 48)) 0 ds"

section \<open>Post-processor registry\<close>

text \<open>
  The \<^verbatim>\<open>this\<close> of a call of a processor: the registered context, or the registry entry
  \<^verbatim>\<open>{processor, context}\<close> itself, given by its \<^verbatim>\<open>context\<close> field, when the processor is called
  as a member of that entry.
\<close>

datatype thisArg = ThisContext jsval | ThisEntry "jsval option"

text \<open>
  An element of the result array after a processor has run: still an ordinary object,
  or frozen by the processor, so that an assignment to a property of it throws (the
  class body is strict code).
\<close>

datatype slot = Writable ExtractionResult | Frozen ExtractionResult

fun slotValue :: "slot \<Rightarrow> ExtractionResult" where
  "slotValue (Writable r) = r"
| "slotValue (Frozen r) = r"

text \<open>\<^verbatim>\<open>results[0].error = msg\<close> on such an element (the text of the \<^verbatim>\<open>TypeError\<close> is the
  engine's).\<close>

definition assignError :: "slot \<Rightarrow> string \<Rightarrow> thrown + ExtractionResult" where
  "assignError s msg =
     (case s of
        Writable r \<Rightarrow> Inr (r\<lparr>error := Some msg\<rparr>)
      | Frozen r \<Rightarrow> Inl (ErrorObj ''Cannot assign to read only property error''))"

text \<open>
  A post-processor is called with a \<^verbatim>\<open>this\<close> and the result array. The array is passed by
  reference, so the call yields the state in which it leaves that array, together with
  its outcome: the returned (or resolved) sequence, or the value it threw (or rejected
  with).
\<close>

type_synonym PostProcessor =
  "thisArg \<Rightarrow> ExtractionResult list \<Rightarrow> slot list \<times> (thrown + ExtractionResult list)"

datatype PostProcessorInput =
    PlainFunction PostProcessor
  | HandlerObject PostProcessor "jsval option"

record PostProcessorContext =
  processor :: PostProcessor
  context_value :: "jsval option"

type_synonym registry = "string \<rightharpoonup> PostProcessorContext"

definition setPostProcessor_private :: "string \<Rightarrow> PostProcessorInput \<Rightarrow> registry \<Rightarrow> registry" where
  "setPostProcessor_private extension input reg =
     (case input of
        PlainFunction f \<Rightarrow> reg(extension \<mapsto> \<lparr>processor = f, context_value = None\<rparr>)
      | HandlerObject h c \<Rightarrow> reg(extension \<mapsto> \<lparr>processor = h, context_value = c\<rparr>))"

definition setDocxPostProcessor :: "PostProcessorInput \<Rightarrow> registry \<Rightarrow> registry" where
  "setDocxPostProcessor input reg = setPostProcessor_private ''.docx'' input reg"

definition setXlsxPostProcessor :: "PostProcessorInput \<Rightarrow> registry \<Rightarrow> registry" where
  "setXlsxPostProcessor input reg =
     setPostProcessor_private ''.xls'' input (setPostProcessor_private ''.xlsx'' input reg)"

definition setPptxPostProcessor :: "PostProcessorInput \<Rightarrow> registry \<Rightarrow> registry" where
  "setPptxPostProcessor input reg = setPostProcessor_private ''.pptx'' input reg"

definition setPdfPostProcessor :: "PostProcessorInput \<Rightarrow> registry \<Rightarrow> registry" where
  "setPdfPostProcessor input reg = setPostProcessor_private ''.pdf'' input reg"

definition setPostProcessor :: "string \<Rightarrow> PostProcessorInput \<Rightarrow> registry \<Rightarrow> registry" where
  "setPostProcessor extension input reg =
     (let ext = (if startsWith extension ''.'' then extension else ''.'' @ extension)
      in setPostProcessor_private (toLowerCase ext) input reg)"

definition clearPostProcessor :: "string \<Rightarrow> registry \<Rightarrow> registry" where
  "clearPostProcessor extension reg =
     (let ext = (if startsWith extension ''.'' then extension else ''.'' @ extension)
      in reg(toLowerCase ext := None))"

definition clearAllPostProcessors :: "registry \<Rightarrow> registry" where
  "clearAllPostProcessors reg = Map.empty"

section \<open>Effects: external calls, exceptions and the call log\<close>

datatype stage = FullPageStage | ImageStage

datatype imageFormat = Native | Jpeg | Png

text \<open>The output mode handed to \<^verbatim>\<open>pdfImages\<close>: \<^verbatim>\<open>allFiles\<close>, \<^verbatim>\<open>pngFile\<close> or \<^verbatim>\<open>jpegFile\<close>.\<close>

datatype imagesMode = AllFiles | PngFile | JpegFile

text \<open>\<^verbatim>\<open>pdfInfo\<close> resolves to a string or to an object.\<close>

datatype pdfInfoOutput = InfoString string | InfoObject

text \<open>Every call that leaves the module, in the order of the source.\<close>

datatype call =
    MammothExtractRawText string
  | XlsxReadFile string
  | SheetToCsv nat
  | PptxExtractText string
  | NewPoppler
  | PdfInfo string
  | ProgressCallback nat nat
  | FsMkdir nat stage
  | PdfToCairo string nat
  | FsAccess string
  | FsReadFile string
  | FsRm string
  | SharpJpeg
  | PdfToText string nat
  | PdfImages string nat imagesMode
  | FsReaddir nat
  | CallProcessor string thisArg
  | ConsoleError string
  | ConsoleLog string

text \<open>
  A computation yields the log of the calls it made and either the value it threw (the
  rejection of the promise of an \<^verbatim>\<open>async\<close> function) or its result.
\<close>

type_synonym 'a io = "call list \<times> (thrown + 'a)"

definition ret :: "'a \<Rightarrow> 'a io" where
  "ret a = ([], Inr a)"

definition throw :: "thrown \<Rightarrow> 'a io" where
  "throw e = ([], Inl e)"

definition ext_call :: "call \<Rightarrow> thrown + 'a \<Rightarrow> 'a io" where
  "ext_call c outcome = ([c], outcome)"

definition bind :: "'a io \<Rightarrow> ('a \<Rightarrow> 'b io) \<Rightarrow> 'b io" where
  "bind m f = (case m of
       (l, Inl e) \<Rightarrow> (l, Inl e)
     | (l, Inr a) \<Rightarrow> (case f a of (l', r) \<Rightarrow> (l @ l', r)))"

definition try_catch :: "'a io \<Rightarrow> (thrown \<Rightarrow> 'a io) \<Rightarrow> 'a io" where
  "try_catch m h = (case m of
       (l, Inl e) \<Rightarrow> (case h e of (l', r) \<Rightarrow> (l @ l', r))
     | (l, Inr a) \<Rightarrow> (l, Inr a))"

text \<open>
  The world outside the module: the path helpers and encoders of the platform, and the
  outcome of every parser, tool and file-system call. A call that is made once per page
  and stage is keyed by them, a file operation by the file's name inside the scratch
  directory.
\<close>

record world =
  path_extname :: "string \<Rightarrow> string"
  path_basename :: "string \<Rightarrow> string"
  toBase64 :: "string \<Rightarrow> string"
  mammoth_extractRawText :: "string \<Rightarrow> thrown + string"
  XLSX_readFile :: "string \<Rightarrow> thrown + (thrown + string) list"
  PptxParser_extractText :: "string \<Rightarrow> thrown + string list list"
  new_Poppler :: "thrown + unit"
  pdfInfo :: "string \<Rightarrow> thrown + pdfInfoOutput"
  pdfToCairo :: "string \<Rightarrow> nat \<Rightarrow> thrown + unit"
  pdfToText :: "string \<Rightarrow> nat \<Rightarrow> thrown + string"
  pdfImages :: "string \<Rightarrow> nat \<Rightarrow> imagesMode \<Rightarrow> thrown + unit"
  sharp_jpeg :: "string \<Rightarrow> thrown + string"
  randomHex :: "nat \<Rightarrow> stage \<Rightarrow> string"
  fs_mkdir :: "nat \<Rightarrow> stage \<Rightarrow> thrown + unit"
  fs_access :: "string \<Rightarrow> thrown + unit"
  fs_readFile :: "string \<Rightarrow> thrown + string"
  fs_rm :: "string \<Rightarrow> thrown + unit"
  fs_readdir :: "nat \<Rightarrow> thrown + string list"

text \<open>
  In \<open>XLSX_readFile\<close> a workbook is the list of its sheets in \<^verbatim>\<open>SheetNames\<close> order, each
  given by the outcome of \<^verbatim>\<open>sheet_to_csv\<close> on it. \<open>PptxParser_extractText\<close> stands for
  the construction of the parser followed by \<^verbatim>\<open>extractText\<close>; a slide is its list of
  text fragments.
\<close>

record PdfExtractionOptions =
  imageFormat :: "imageFormat option"
  fullPageImage :: "bool option"

text \<open>A progress callback is given by what calling it with the current page and the
  page count does: return, or throw.\<close>

record ExtractionOptions =
  extension :: "string option"
  pdf :: "PdfExtractionOptions option"
  progressCallback :: "(nat \<Rightarrow> nat \<Rightarrow> thrown + unit) option"

section \<open>Applying a post-processor\<close>

text \<open>The \<^verbatim>\<open>this\<close> of the call: \<^verbatim>\<open>config.context ? config.processor.call(config.context,
  results) : config.processor(results)\<close>. The second branch is a member call on \<^verbatim>\<open>config\<close>, so
  there \<^verbatim>\<open>this\<close> is the registry entry.\<close>

definition thisBinding :: "PostProcessorContext \<Rightarrow> thisArg" where
  "thisBinding config =
     (case context_value config of
        None \<Rightarrow> ThisEntry None
      | Some c \<Rightarrow> if truthy c then ThisContext c else ThisEntry (Some c))"

text \<open>The \<^verbatim>\<open>catch\<close> block is not guarded itself: what \<^verbatim>\<open>String(error)\<close> or the assignment
  to \<^verbatim>\<open>results[0].error\<close> throws rejects the step. The message is built before it is
  assigned.\<close>

definition applyPostProcessor :: "registry \<Rightarrow> string \<Rightarrow> ExtractionResult list \<Rightarrow> ExtractionResult list io" where
  "applyPostProcessor reg ext results =
     (case reg ext of
        None \<Rightarrow> ret results
      | Some config \<Rightarrow>
          (let this = thisBinding config
           in case processor config this results of
                (slots, Inr processed) \<Rightarrow> ([CallProcessor ext this], Inr processed)
              | (slots, Inl err) \<Rightarrow>
                  ([CallProcessor ext this, ConsoleError (''Post-processor for '' @ ext @ '' failed:'')],
                   (case slots of
                      [] \<Rightarrow> Inr []
                    | s # rest \<Rightarrow>
                        (case message_or_String err of
                           Inl t \<Rightarrow> Inl t
                         | Inr msg \<Rightarrow>
                             (case assignError s (''Post-processor error: '' @ msg) of
                                Inl t \<Rightarrow> Inl t
                              | Inr r \<Rightarrow> Inr (r # map slotValue rest)))))))"

definition ext :: "world \<Rightarrow> string \<Rightarrow> string" where
  "ext w p = toLowerCase (path_extname w p)"

section \<open>Word, spreadsheet and slide-deck extractors\<close>

definition errorResult :: "string \<Rightarrow> nat \<Rightarrow> string \<Rightarrow> ExtractionResult" where
  "errorResult name n msg =
     \<lparr>type = None, fileName = name, page = n, contents = None, error = Some msg, isFullPage = None\<rparr>"

definition extractDocx :: "world \<Rightarrow> string \<Rightarrow> ExtractionResult list io" where
  "extractDocx w filePath =
     (let name = path_basename w filePath in
      try_catch
        (bind (ext_call (MammothExtractRawText filePath) (mammoth_extractRawText w filePath))
           (\<lambda>v. ret [\<lparr>type = Some Text, fileName = name, page = 1, contents = Some (trim v),
                        error = None, isFullPage = None\<rparr>]))
        (\<lambda>e. ret [errorResult name 1
                 (message_or e ''An unknown error occurred while parsing the .docx file.'')]))"

text \<open>The callback of \<^verbatim>\<open>wb.SheetNames.map\<close>, sheet by sheet from index \<open>index\<close> on; the
  first \<^verbatim>\<open>sheet_to_csv\<close> that throws ends the whole \<^verbatim>\<open>map\<close>.\<close>

fun sheetsToResults :: "string \<Rightarrow> nat \<Rightarrow> (thrown + string) list \<Rightarrow> ExtractionResult list io" where
  "sheetsToResults name index [] = ret []"
| "sheetsToResults name index (sheet # rest) =
     bind (ext_call (SheetToCsv index) sheet)
       (\<lambda>csv. bind (sheetsToResults name (Suc index) rest)
          (\<lambda>rs. ret (\<lparr>type = Some Csv, fileName = name, page = index + 1, contents = Some csv,
                         error = None, isFullPage = None\<rparr> # rs)))"

definition extractXlsx :: "world \<Rightarrow> string \<Rightarrow> ExtractionResult list io" where
  "extractXlsx w filePath =
     (let name = path_basename w filePath in
      try_catch
        (bind (ext_call (XlsxReadFile filePath) (XLSX_readFile w filePath))
           (\<lambda>sheets. sheetsToResults name 0 sheets))
        (\<lambda>e. ret [errorResult name 1
                 (message_or e ''An unknown error occurred while parsing the .xlsx file.'')]))"

definition extractPptx :: "world \<Rightarrow> string \<Rightarrow> ExtractionResult list io" where
  "extractPptx w filePath =
     (let name = path_basename w filePath in
      try_catch
        (bind (ext_call (PptxExtractText filePath) (PptxParser_extractText w filePath))
           (\<lambda>slides. ret (map (\<lambda>(index, slide).
                \<lparr>type = Some Text, fileName = name, page = index + 1,
                 contents = Some (join [CHR 0x0A] slide), error = None, isFullPage = None\<rparr>)
              (enumerate 0 slides))))
        (\<lambda>e. ret [errorResult name 1
                 (message_or e ''An unknown error occurred while parsing the .pptx file.'')]))"

section \<open>PDF extractor\<close>

text \<open>The search of \<^verbatim>\<open>info.match(/Pages:\s+(\d+)/)\<close>: the capture of the leftmost match.
  White space and digits are disjoint classes, so the greedy match of each group is the
  only one.\<close>

definition matchPagesAt :: "string \<Rightarrow> string option" where
  "matchPagesAt s =
     (if startsWith s ''Pages:'' then
        (let r = drop 6 s; ds = takeWhile isDigit (dropWhile isSpace r)
         in if takeWhile isSpace r \<noteq> [] \<and> ds \<noteq> [] then Some ds else None)
      else None)"

fun matchPages :: "string \<Rightarrow> string option" where
  "matchPages [] = None"
| "matchPages (c # cs) =
     (case matchPagesAt (c # cs) of Some ds \<Rightarrow> Some ds | None \<Rightarrow> matchPages cs)"

definition pageCountOf :: "pdfInfoOutput \<Rightarrow> nat" where
  "pageCountOf info =
     (case info of
        InfoString s \<Rightarrow> (case matchPages s of Some ds \<Rightarrow> parseInt ds | None \<Rightarrow> 0)
      | InfoObject \<Rightarrow> 0)"

definition mimeTypeOf :: "string \<Rightarrow> string" where
  "mimeTypeOf imageExtension =
     (if imageExtension = ''png'' then ''image/png''
      else if imageExtension = ''jpg'' \<or> imageExtension = ''jpeg'' then ''image/jpeg''
      else if imageExtension = ''tif'' \<or> imageExtension = ''tiff'' then ''image/tiff''
      else if imageExtension = ''jp2'' then ''image/jp2''
      else ''image/jpeg'')"

definition imagesModeOf :: "imageFormat \<Rightarrow> imagesMode" where
  "imagesModeOf f = (case f of Native \<Rightarrow> AllFiles | Png \<Rightarrow> PngFile | Jpeg \<Rightarrow> JpegFile)"

definition cairoErrorMessage :: "nat \<Rightarrow> string" where
  "cairoErrorMessage pageNum = ''pdfToCairo failed for page '' @ show_nat pageNum @
     ''. The PDF may be incompatible or the environment may have an issue with the Poppler binary.''"

text \<open>The full-page render of one page (the body of \<^verbatim>\<open>if (fullPageImage)\<close>): what it
  pushes onto \<^verbatim>\<open>pageResults\<close>. The directory is created before the inner \<^verbatim>\<open>try\<close>.\<close>

definition fullPageStage :: "world \<Rightarrow> string \<Rightarrow> string \<Rightarrow> nat \<Rightarrow> ExtractionResult list io" where
  "fullPageStage w filePath name pageNum =
     bind (ext_call (FsMkdir pageNum FullPageStage) (fs_mkdir w pageNum FullPageStage))
       (\<lambda>u. let outputPrefix = ''cairo-output-'' @ randomHex w pageNum FullPageStage @ ''-p'' @ show_nat pageNum;
                 jpegPath = outputPrefix @ ''.jpg''
             in try_catch
                  (bind (ext_call (PdfToCairo filePath pageNum) (pdfToCairo w filePath pageNum))
                     (\<lambda>u. bind (try_catch (ext_call (FsAccess jpegPath) (fs_access w jpegPath))
                                    (\<lambda>e. throw (ErrorObj ''pdftocairo failed to create output file.'')))
                     (\<lambda>u. bind (ext_call (FsReadFile jpegPath) (fs_readFile w jpegPath))
                     (\<lambda>imageBuffer. bind (ext_call (FsRm jpegPath) (fs_rm w jpegPath))
                     (\<lambda>u. if length imageBuffer > 0 then
                             bind (ext_call SharpJpeg (sharp_jpeg w imageBuffer))
                               (\<lambda>reEncodedBuffer. ret
                                  [\<lparr>type = Some Image, fileName = name, page = pageNum,
                                    contents = Some (''data:image/jpeg;base64,'' @ toBase64 w reEncodedBuffer),
                                    error = None, isFullPage = Some True\<rparr>])
                           else ret [])))))
                  (\<lambda>cairoError.
                     bind (ext_call (ConsoleError (cairoErrorMessage pageNum)) (Inr ()))
                       (\<lambda>u. ret [errorResult name pageNum (cairoErrorMessage pageNum)])))"

text \<open>The loop over the image files of one page: what it pushes onto \<^verbatim>\<open>pageResults\<close>.\<close>

fun imagesLoop :: "world \<Rightarrow> string \<Rightarrow> nat \<Rightarrow> string list \<Rightarrow> ExtractionResult list io" where
  "imagesLoop w name pageNum [] = ret []"
| "imagesLoop w name pageNum (imageFile # rest) =
     bind (ext_call (FsReadFile imageFile) (fs_readFile w imageFile))
       (\<lambda>imageBuffer. bind (ext_call (FsRm imageFile) (fs_rm w imageFile))
       (\<lambda>u. if length imageBuffer = 0 then
               bind (ext_call (ConsoleLog (''Skipping empty image file extracted from PDF: '' @ imageFile)) (Inr ()))
                 (\<lambda>u. imagesLoop w name pageNum rest)
             else
               bind (imagesLoop w name pageNum rest)
                 (\<lambda>rs. ret (\<lparr>type = Some Image, fileName = name, page = pageNum,
                               contents = Some (''data:'' @ mimeTypeOf (toLowerCase (drop 1 (path_extname w imageFile)))
                                                @ '';base64,'' @ toBase64 w imageBuffer),
                               error = None, isFullPage = None\<rparr> # rs))))"

text \<open>The body of the per-page \<^verbatim>\<open>try\<close>: text, embedded images and the filler for a page
  without content. It starts from the \<^verbatim>\<open>pageResults\<close> the full-page stage left and yields
  what is pushed onto \<^verbatim>\<open>results\<close>. Files are named relative to the scratch directory, so
  \<^verbatim>\<open>path.basename(imagePrefix)\<close> is the prefix itself.\<close>

definition textAndImageStages ::
  "world \<Rightarrow> string \<Rightarrow> string \<Rightarrow> imageFormat \<Rightarrow> nat \<Rightarrow> ExtractionResult list \<Rightarrow> ExtractionResult list io" where
  "textAndImageStages w filePath name format pageNum pageResults =
     bind (ext_call (PdfToText filePath pageNum) (pdfToText w filePath pageNum))
       (\<lambda>text. let pageResults1 = pageResults @
                      (if length (trim text) > 0
                       then [\<lparr>type = Some Text, fileName = name, page = pageNum,
                              contents = Some (trim text), error = None, isFullPage = None\<rparr>]
                       else [])
         in bind (ext_call (FsMkdir pageNum ImageStage) (fs_mkdir w pageNum ImageStage))
       (\<lambda>u. let imagePrefix = ''pdf-images-'' @ randomHex w pageNum ImageStage @ ''-p'' @ show_nat pageNum
         in bind (ext_call (PdfImages filePath pageNum (imagesModeOf format))
                    (pdfImages w filePath pageNum (imagesModeOf format)))
       (\<lambda>u. bind (ext_call (FsReaddir pageNum) (fs_readdir w pageNum))
       (\<lambda>files. bind (imagesLoop w name pageNum (filter (\<lambda>f. startsWith f imagePrefix) files))
       (\<lambda>images. let pageResults2 = pageResults1 @ images
         in ret (if length pageResults2 = 0
                 then [\<lparr>type = Some Text, fileName = name, page = pageNum,
                        contents = Some [], error = None, isFullPage = None\<rparr>]
                 else pageResults2))))))"

text \<open>One iteration of the page loop: what it pushes onto \<^verbatim>\<open>results\<close>, or what escapes to
  the outer \<^verbatim>\<open>catch\<close>.\<close>

definition processPage ::
  "world \<Rightarrow> string \<Rightarrow> string \<Rightarrow> imageFormat \<Rightarrow> bool \<Rightarrow> (nat \<Rightarrow> nat \<Rightarrow> thrown + unit) option
     \<Rightarrow> nat \<Rightarrow> nat \<Rightarrow> ExtractionResult list io" where
  "processPage w filePath name format fullPage callback pageCount pageNum =
     bind (case callback of
             None \<Rightarrow> ret ()
           | Some cb \<Rightarrow> ext_call (ProgressCallback pageNum pageCount) (cb pageNum pageCount))
       (\<lambda>u. bind (if fullPage then fullPageStage w filePath name pageNum else ret [])
       (\<lambda>pageResults.
          try_catch (textAndImageStages w filePath name format pageNum pageResults)
            (\<lambda>pageError. ret [errorResult name pageNum
               (message_or pageError (''Error processing page '' @ show_nat pageNum))])))"

text \<open>\<^verbatim>\<open>for (let pageNum = ...; pageNum <= pageCount; pageNum++)\<close> around a page body.\<close>

function pagesLoop ::
  "(nat \<Rightarrow> ExtractionResult list io) \<Rightarrow> nat \<Rightarrow> nat \<Rightarrow> ExtractionResult list \<Rightarrow> ExtractionResult list io" where
  "pagesLoop body pageCount pageNum results =
     (if pageNum \<le> pageCount
      then bind (body pageNum) (\<lambda>rs. pagesLoop body pageCount (Suc pageNum) (results @ rs))
      else ret results)"
  by pat_completeness auto
termination
  by (relation "measure (\<lambda>(body, pageCount, pageNum, results). Suc pageCount - pageNum)") auto

declare pagesLoop.simps [simp del]

definition extractPdf ::
  "world \<Rightarrow> string \<Rightarrow> PdfExtractionOptions option \<Rightarrow> (nat \<Rightarrow> nat \<Rightarrow> thrown + unit) option
     \<Rightarrow> ExtractionResult list io" where
  "extractPdf w filePath options callback =
     (let format = (case options of None \<Rightarrow> Native
                    | Some opts \<Rightarrow> (case imageFormat opts of None \<Rightarrow> Native | Some f \<Rightarrow> f));
          fullPage = (case options of None \<Rightarrow> False
                      | Some opts \<Rightarrow> (case fullPageImage opts of None \<Rightarrow> False | Some b \<Rightarrow> b));
          name = path_basename w filePath
      in bind (ext_call NewPoppler (new_Poppler w))
           (\<lambda>poppler.
              try_catch
                (bind (ext_call (PdfInfo filePath) (pdfInfo w filePath))
                   (\<lambda>info. let pageCount = pageCountOf info
                      in if pageCount = 0
                         then ret [errorResult name 1 ''Unable to determine PDF page count'']
                         else pagesLoop (processPage w filePath name format fullPage callback pageCount)
                                pageCount 1 []))
                (\<lambda>e. ret [errorResult name 1
                   (message_or e ''An unknown error occurred while parsing the .pdf file.'')])))"

section \<open>The entry point\<close>

definition unsupportedMessage :: "string \<Rightarrow> string" where
  "unsupportedMessage e = ''DocSuite: unsupported extension '' @ [CHR 0x22] @ e @ [CHR 0x22]"

text \<open>The extension \<^verbatim>\<open>extract\<close> dispatches on: a non-empty \<^verbatim>\<open>options.extension\<close> in lower
  case, else the extension of the path.\<close>

definition resolvedExt :: "world \<Rightarrow> string \<Rightarrow> ExtractionOptions option \<Rightarrow> string" where
  "resolvedExt w filePath options =
     (case (case options of None \<Rightarrow> None | Some opts \<Rightarrow> extension opts) of
        None \<Rightarrow> ext w filePath
      | Some e \<Rightarrow> if e \<noteq> [] then toLowerCase e else ext w filePath)"

text \<open>\<^verbatim>\<open>DocSuite.extract\<close>\<close>

definition extractFile ::
  "world \<Rightarrow> registry \<Rightarrow> string \<Rightarrow> ExtractionOptions option \<Rightarrow> ExtractionResult list io" where
  "extractFile w reg filePath options =
     (let e = resolvedExt w filePath options
      in bind
           (if e = ''.docx'' then extractDocx w filePath
            else if e = ''.xlsx'' \<or> e = ''.xls'' then extractXlsx w filePath
            else if e = ''.pptx'' then extractPptx w filePath
            else if e = ''.pdf'' then
              extractPdf w filePath
                (case options of None \<Rightarrow> None | Some opts \<Rightarrow> pdf opts)
                (case options of None \<Rightarrow> None | Some opts \<Rightarrow> progressCallback opts)
            else ret [errorResult (path_basename w filePath) 1 (unsupportedMessage e)])
           (\<lambda>results. applyPostProcessor reg e results))"

section \<open>Notions used in the statements\<close>

text \<open>The registry entry that registering \<open>input\<close> stores.\<close>

definition registryEntry :: "PostProcessorInput \<Rightarrow> PostProcessorContext" where
  "registryEntry input =
     (case input of
        PlainFunction f \<Rightarrow> \<lparr>processor = f, context_value = None\<rparr>
      | HandlerObject h c \<Rightarrow> \<lparr>processor = h, context_value = c\<rparr>)"


text \<open>The calls made by the format extractors, as opposed to those of the
  post-processor step.\<close>

fun isExtractorCall :: "call \<Rightarrow> bool" where
  "isExtractorCall (CallProcessor e t) = False"
| "isExtractorCall (ConsoleError m) = False"
| "isExtractorCall (ConsoleLog m) = False"
| "isExtractorCall c = True"

text \<open>The pattern of the page-count line in words: the text \<^verbatim>\<open>Pages:\<close>, then one or more
  white-space characters, then one or more digits, anywhere in the report.\<close>

definition hasPagesPattern :: "string \<Rightarrow> bool" where
  "hasPagesPattern s =
     (\<exists>pre ws ds rest. s = pre @ ''Pages:'' @ ws @ ds @ rest
        \<and> ws \<noteq> [] \<and> list_all isSpace ws \<and> ds \<noteq> [] \<and> list_all isDigit ds)"


text \<open>The progress callback, if one is supplied, returns on this page; and the call it
  leaves in the log.\<close>

definition callbackReturns :: "(nat \<Rightarrow> nat \<Rightarrow> thrown + unit) option \<Rightarrow> nat \<Rightarrow> nat \<Rightarrow> bool" where
  "callbackReturns callback pageNum pageCount =
     (case callback of None \<Rightarrow> True | Some cb \<Rightarrow> cb pageNum pageCount = Inr ())"

definition callbackLog :: "(nat \<Rightarrow> nat \<Rightarrow> thrown + unit) option \<Rightarrow> nat \<Rightarrow> nat \<Rightarrow> call list" where
  "callbackLog callback pageNum pageCount =
     (case callback of None \<Rightarrow> [] | Some cb \<Rightarrow> [ProgressCallback pageNum pageCount])"

text \<open>Every result a computation can return satisfies \<open>P\<close>.\<close>

definition yields :: "'a io \<Rightarrow> ('a \<Rightarrow> bool) \<Rightarrow> bool" where
  "yields m P = (\<forall>l a. m = (l, Inr a) \<longrightarrow> P a)"



text \<open>The digits the page count is read from, in words: \<open>ds\<close> is the whole run of digits
  at the first place of the report where \<^verbatim>\<open>Pages:\<close> is followed by one or more white-space
  characters and then by digits.\<close>

definition firstPagesMatch :: "string \<Rightarrow> string \<Rightarrow> bool" where
  "firstPagesMatch s ds =
     (\<exists>pre ws rest. s = pre @ ''Pages:'' @ ws @ ds @ rest \<and> \<not> hasPagesPattern pre
        \<and> ws \<noteq> [] \<and> list_all isSpace ws \<and> ds \<noteq> [] \<and> list_all isDigit ds
        \<and> (rest = [] \<or> \<not> isDigit (hd rest)))"



text \<open>The first sheet on which \<^verbatim>\<open>sheet_to_csv\<close> throws, and the CSV texts of the sheets.\<close>

fun firstThrow :: "(thrown + string) list \<Rightarrow> thrown option" where
  "firstThrow [] = None"
| "firstThrow (Inl e # rest) = Some e"
| "firstThrow (Inr c # rest) = firstThrow rest"

fun csvsOf :: "(thrown + string) list \<Rightarrow> string list" where
  "csvsOf [] = []"
| "csvsOf (Inl e # rest) = csvsOf rest"
| "csvsOf (Inr c # rest) = c # csvsOf rest"

section \<open>Sample worlds, processors and results\<close>

text \<open>A world in which every call succeeds with an empty answer; the samples below
  change one oracle at a time.\<close>

definition quietWorld :: world where
  "quietWorld =
     \<lparr>path_extname = (\<lambda>p. []),
      path_basename = (\<lambda>p. p),
      toBase64 = (\<lambda>b. b),
      mammoth_extractRawText = (\<lambda>p. Inr []),
      XLSX_readFile = (\<lambda>p. Inr []),
      PptxParser_extractText = (\<lambda>p. Inr []),
      new_Poppler = Inr (),
      pdfInfo = (\<lambda>p. Inr (InfoString [])),
      pdfToCairo = (\<lambda>p n. Inr ()),
      pdfToText = (\<lambda>p n. Inr []),
      pdfImages = (\<lambda>p n m. Inr ()),
      sharp_jpeg = (\<lambda>b. Inr b),
      randomHex = (\<lambda>n s. ''00''),
      fs_mkdir = (\<lambda>n s. Inr ()),
      fs_access = (\<lambda>p. Inr ()),
      fs_readFile = (\<lambda>p. Inr []),
      fs_rm = (\<lambda>p. Inr ()),
      fs_readdir = (\<lambda>n. Inr [])\<rparr>"

definition sampleText :: "string \<Rightarrow> nat \<Rightarrow> string \<Rightarrow> ExtractionResult" where
  "sampleText name n c =
     \<lparr>type = Some Text, fileName = name, page = n, contents = Some c, error = None, isFullPage = None\<rparr>"



text \<open>\<^verbatim>\<open>(results) => { results.forEach(r => Object.freeze(r)); throw new Error('boom') }\<close>\<close>

definition freezeThenThrow :: PostProcessor where
  "freezeThenThrow this results = (map Frozen results, Inl (ErrorObj ''boom''))"

text \<open>\<^verbatim>\<open>() => []\<close>\<close>

definition returnNothing :: PostProcessor where
  "returnNothing this results = (map Writable results, Inr [])"

text \<open>A handler that writes into every result what its \<^verbatim>\<open>this\<close> is: the registered
  context, or the registry entry.\<close>

definition reportThis :: PostProcessor where
  "reportThis this results =
     (map Writable results,
      Inr (map (\<lambda>r. r\<lparr>contents := Some (case this of
                                            ThisContext v \<Rightarrow> ''this is the context''
                                          | ThisEntry c \<Rightarrow> ''this is the registry entry'')\<rparr>) results))"

text \<open>A one-page PDF with the text \<^verbatim>\<open>hello\<close>, whose full-page render succeeds.\<close>

definition renderWorld :: world where
  "renderWorld = quietWorld\<lparr>path_extname := (\<lambda>p. ''.pdf''),
     pdfInfo := (\<lambda>p. Inr (InfoString ''Pages:          1'')),
     fs_readFile := (\<lambda>p. Inr ''JFIF''),
     pdfToText := (\<lambda>p n. Inr ''hello'')\<rparr>"

text \<open>The same, with a text tool that fails; with a render of zero bytes; with a render
  tool that fails.\<close>

definition textFailsWorld :: world where
  "textFailsWorld = renderWorld\<lparr>pdfToText := (\<lambda>p n. Inl (ErrorObj ''Syntax Error''))\<rparr>"







text \<open>A world with a good and a bad document of each format, and a workbook whose second
  sheet cannot be converted.\<close>

definition mixedWorld :: world where
  "mixedWorld = quietWorld\<lparr>
     mammoth_extractRawText := (\<lambda>p. if p = ''bad.docx'' then Inl (ErrorObj ''Corrupted zip'') else Inr ''  hello  ''),
     XLSX_readFile := (\<lambda>p. if p = ''bad.xlsx'' then Inl (NonError ''oops'')
        else if p = ''half.xlsx'' then Inr [Inr ''a,b'', Inl (ErrorObj ''Bad sheet''), Inr ''c'']
        else Inr [Inr ''a,b'', Inr ''c'']),
     PptxParser_extractText := (\<lambda>p. if p = ''bad.pptx'' then Inl (ErrorObj ''Not a deck'') else Inr [[''a'', ''b'']]),
     pdfInfo := (\<lambda>p. if p = ''bad.pdf'' then Inl (ErrorObj ''Command failed'') else Inr (InfoString ''Pages: 1'')),
     pdfToText := (\<lambda>p n. Inr ''hello'')\<rparr>"

text \<open>A workbook without sheets, on a path ending in \<^verbatim>\<open>.xlsx\<close>.\<close>

definition emptyWorkbookWorld :: world where
  "emptyWorkbookWorld = quietWorld\<lparr>path_extname := (\<lambda>p. ''.xlsx'')\<rparr>"

text \<open>An empty Word document on a path ending in \<^verbatim>\<open>.docx\<close>.\<close>

definition docxWorld :: world where
  "docxWorld = quietWorld\<lparr>path_extname := (\<lambda>p. ''.docx'')\<rparr>"

text \<open>A legacy workbook with one sheet.\<close>

definition xlsWorld :: world where
  "xlsWorld = quietWorld\<lparr>path_extname := (\<lambda>p. ''.xls''), XLSX_readFile := (\<lambda>p. Inr [Inr ''a,b''])\<rparr>"

text \<open>A host on which constructing the Poppler wrapper throws.\<close>

definition noPopplerWorld :: world where
  "noPopplerWorld = quietWorld\<lparr>path_extname := (\<lambda>p. ''.pdf''),
     new_Poppler := Inl (ErrorObj ''Unable to find linux Poppler binaries'')\<rparr>"

text \<open>A path with an upper-case extension that no extractor handles.\<close>

definition txtWorld :: world where
  "txtWorld = quietWorld\<lparr>path_extname := (\<lambda>p. ''.TXT'')\<rparr>"

section \<open>Rules for the effect combinators\<close>

lemma bind_Inl: "bind (l, Inl e) f = (l, Inl e)"
  by (simp add: bind_def)

lemma bind_Inr: "bind (l, Inr a) f = (l @ fst (f a), snd (f a))"
  by (simp add: bind_def split: prod.splits)

lemma bind_ret: "bind (ret a) f = f a"
  by (simp add: bind_def ret_def split: prod.splits)

lemma try_catch_Inr: "try_catch (l, Inr a) h = (l, Inr a)"
  by (simp add: try_catch_def)

lemma try_catch_Inl: "try_catch (l, Inl e) h = (l @ fst (h e), snd (h e))"
  by (simp add: try_catch_def split: prod.splits)

lemma bind_ret_right: "bind m (\<lambda>a. ([], Inr a)) = m"
  by (cases m; cases "snd m") (auto simp: bind_def)

lemma yields_ret: "P a \<Longrightarrow> yields (ret a) P"
  by (simp add: yields_def ret_def)

lemma yields_bind: "(\<And>a. yields (f a) P) \<Longrightarrow> yields (bind m f) P"
  by (cases m; cases "snd m") (auto simp: yields_def bind_def split: prod.splits)


lemma yields_try_catch: "yields m P \<Longrightarrow> (\<And>e. yields (h e) P) \<Longrightarrow> yields (try_catch m h) P"
  by (cases m; cases "snd m") (auto simp: yields_def try_catch_def split: prod.splits)

lemma try_catch_returns:
  assumes "\<And>e. \<exists>l a. h e = (l, Inr a)"
  shows "\<exists>l a. try_catch m h = (l, Inr a)"
proof (cases m)
  case (Pair l r)
  show ?thesis
  proof (cases r)
    case (Inl e)
    from assms obtain l' a where "h e = (l', Inr a)" by blast
    with Pair Inl show ?thesis by (simp add: try_catch_def)
  next
    case (Inr a)
    with Pair show ?thesis by (simp add: try_catch_def)
  qed
qed

section \<open>Lower-casing of the extensions that occur\<close>

lemma lower_dot_xlsx: "toLowerCase ''.xlsx'' = ''.xlsx''"
  by code_simp

lemma lower_dot_xls: "toLowerCase ''.xls'' = ''.xls''"
  by code_simp

lemma lower_dot_docx: "toLowerCase ''.docx'' = ''.docx''"
  by code_simp

lemma lower_dot_pdf: "toLowerCase ''.pdf'' = ''.pdf''"
  by code_simp

lemma lower_pdf: "toLowerCase ''pdf'' = ''pdf''"
  by code_simp

lemma lower_dot_TXT: "toLowerCase ''.TXT'' = ''.txt''"
  by code_simp

lemma show_nat_1: "show_nat 1 = ''1''" "show_nat (Suc 0) = ''1''"
  by (simp_all add: show_nat.simps)

lemma resolvedExt_path: "resolvedExt w filePath None = toLowerCase (path_extname w filePath)"
  by (simp add: resolvedExt_def ext_def)

section \<open>The registry\<close>

lemma setPostProcessor_private_entry:
  "setPostProcessor_private e input reg = reg(e \<mapsto> registryEntry input)"
  by (cases input) (simp_all add: setPostProcessor_private_def registryEntry_def)

lemma clearPostProcessor_dot_xlsx: "clearPostProcessor ''.xlsx'' reg = reg(''.xlsx'' := None)"
  by (simp add: clearPostProcessor_def startsWith_def lower_dot_xlsx)

lemma applyPostProcessor_none: "reg e = None \<Longrightarrow> applyPostProcessor reg e results = ([], Inr results)"
  by (simp add: applyPostProcessor_def ret_def)


lemma applyPostProcessor_log:
  "c \<in> set (fst (applyPostProcessor reg e results)) \<Longrightarrow> \<not> isExtractorCall c"
  by (auto simp: applyPostProcessor_def ret_def Let_def split: option.splits prod.splits sum.splits)

text \<open>
  Claim C10. \<^verbatim>\<open>setXlsxPostProcessor(p)\<close> stores the entry of \<open>p\<close> under \<^verbatim>\<open>.xlsx\<close> and under
  \<^verbatim>\<open>.xls\<close>. A following \<^verbatim>\<open>clearPostProcessor(".xlsx")\<close> removes the \<^verbatim>\<open>.xlsx\<close> entry only: the
  \<^verbatim>\<open>.xls\<close> entry is still that of \<open>p\<close>, every key other than \<^verbatim>\<open>.xlsx\<close> is mapped as before
  the clearing, every key other than the two is mapped as before the registration, and
  \<^verbatim>\<open>extract\<close> on a file whose resolved extension is \<^verbatim>\<open>.xls\<close> still pipes the output of the
  spreadsheet extractor through \<open>p\<close>.
\<close>

theorem clearPostProcessor_xlsx_keeps_xls:
  "setXlsxPostProcessor input reg ''.xlsx'' = Some (registryEntry input)
   \<and> setXlsxPostProcessor input reg ''.xls'' = Some (registryEntry input)
   \<and> clearPostProcessor ''.xlsx'' (setXlsxPostProcessor input reg) ''.xlsx'' = None
   \<and> clearPostProcessor ''.xlsx'' (setXlsxPostProcessor input reg) ''.xls'' = Some (registryEntry input)
   \<and> (\<forall>k. k \<noteq> ''.xlsx'' \<longrightarrow>
         clearPostProcessor ''.xlsx'' (setXlsxPostProcessor input reg) k = setXlsxPostProcessor input reg k)
   \<and> (\<forall>k. k \<noteq> ''.xlsx'' \<and> k \<noteq> ''.xls'' \<longrightarrow>
         clearPostProcessor ''.xlsx'' (setXlsxPostProcessor input reg) k = reg k)
   \<and> (resolvedExt w filePath options = ''.xls'' \<longrightarrow>
         extractFile w (clearPostProcessor ''.xlsx'' (setXlsxPostProcessor input reg)) filePath options
           = bind (extractXlsx w filePath)
               (\<lambda>results. applyPostProcessor (reg(''.xls'' \<mapsto> registryEntry input)) ''.xls'' results))"
  by (simp add: clearPostProcessor_dot_xlsx setXlsxPostProcessor_def setPostProcessor_private_entry
        extractFile_def applyPostProcessor_def Let_def)

lemma extractXlsx_xlsWorld:
  "extractXlsx xlsWorld ''old.xls'' =
     ([XlsxReadFile ''old.xls'', SheetToCsv 0],
      Inr [\<lparr>type = Some Csv, fileName = ''old.xls'', page = 1, contents = Some ''a,b'',
             error = None, isFullPage = None\<rparr>])"
  by (simp add: extractXlsx_def xlsWorld_def quietWorld_def ext_call_def bind_Inr try_catch_Inr ret_def)

theorem clearPostProcessor_xlsx_keeps_xls_witness:
  "clearPostProcessor ''.xlsx'' (setXlsxPostProcessor (PlainFunction reportThis) Map.empty) ''.docx'' = None
   \<and> extractFile xlsWorld
         (clearPostProcessor ''.xlsx'' (setXlsxPostProcessor (PlainFunction reportThis) Map.empty))
         ''old.xls'' None
     = ([XlsxReadFile ''old.xls'', SheetToCsv 0, CallProcessor ''.xls'' (ThisEntry None)],
        Inr [\<lparr>type = Some Csv, fileName = ''old.xls'', page = 1,
               contents = Some ''this is the registry entry'',
               error = None, isFullPage = None\<rparr>])"
proof -
  have e: "resolvedExt xlsWorld ''old.xls'' None = ''.xls''"
    by (simp add: resolvedExt_path xlsWorld_def lower_dot_xls)
  note t = clearPostProcessor_xlsx_keeps_xls
             [of "PlainFunction reportThis" Map.empty xlsWorld "''old.xls''" None]
  have k: "clearPostProcessor ''.xlsx'' (setXlsxPostProcessor (PlainFunction reportThis) Map.empty) ''.docx'' = None"
    using t [THEN conjunct2, THEN conjunct2, THEN conjunct2, THEN conjunct2, THEN conjunct2,
             THEN conjunct1, rule_format, of "''.docx''"]
    by simp
  have x: "extractFile xlsWorld
             (clearPostProcessor ''.xlsx'' (setXlsxPostProcessor (PlainFunction reportThis) Map.empty))
             ''old.xls'' None
           = bind (extractXlsx xlsWorld ''old.xls'')
               (\<lambda>results. applyPostProcessor
                  (Map.empty(''.xls'' \<mapsto> registryEntry (PlainFunction reportThis))) ''.xls'' results)"
    by (rule t [THEN conjunct2, THEN conjunct2, THEN conjunct2, THEN conjunct2, THEN conjunct2,
                THEN conjunct2, rule_format, OF e])
  show ?thesis
    unfolding x extractXlsx_xlsWorld
    using k by (simp add: bind_Inr applyPostProcessor_def registryEntry_def thisBinding_def reportThis_def)
qed

section \<open>Failure of a post-processor\<close>




section \<open>The context of a handler\<close>

text \<open>
  Claim C8, at the inputs where the code departs from it. A handler registered with the
  context \<open>0\<close>, the empty string or \<^verbatim>\<open>false\<close> is not called with that context as its
  \<^verbatim>\<open>this\<close>: the call goes through the member call on the registry entry, so its \<^verbatim>\<open>this\<close>
  is that entry. The same holds for a plain function, which is therefore not called
  unbound either. With an object as context the handler is called bound to it.
\<close>

theorem applyPostProcessor_falsy_context_not_bound:
  "applyPostProcessor (setPostProcessor ''docx'' (HandlerObject reportThis (Some (JNum 0))) Map.empty)
       ''.docx'' [sampleText ''a.docx'' 1 ''one'']
     = ([CallProcessor ''.docx'' (ThisEntry (Some (JNum 0)))],
        Inr [sampleText ''a.docx'' 1 ''this is the registry entry''])
   \<and> applyPostProcessor (setPostProcessor ''docx'' (HandlerObject reportThis (Some (JStr []))) Map.empty)
       ''.docx'' [sampleText ''a.docx'' 1 ''one'']
     = ([CallProcessor ''.docx'' (ThisEntry (Some (JStr [])))],
        Inr [sampleText ''a.docx'' 1 ''this is the registry entry''])
   \<and> applyPostProcessor (setPostProcessor ''docx'' (HandlerObject reportThis (Some (JBool False))) Map.empty)
       ''.docx'' [sampleText ''a.docx'' 1 ''one'']
     = ([CallProcessor ''.docx'' (ThisEntry (Some (JBool False)))],
        Inr [sampleText ''a.docx'' 1 ''this is the registry entry''])
   \<and> applyPostProcessor (setPostProcessor ''docx'' (PlainFunction reportThis) Map.empty)
       ''.docx'' [sampleText ''a.docx'' 1 ''one'']
     = ([CallProcessor ''.docx'' (ThisEntry None)],
        Inr [sampleText ''a.docx'' 1 ''this is the registry entry''])
   \<and> applyPostProcessor (setPostProcessor ''docx'' (HandlerObject reportThis (Some (JObj 7))) Map.empty)
       ''.docx'' [sampleText ''a.docx'' 1 ''one'']
     = ([CallProcessor ''.docx'' (ThisContext (JObj 7))],
        Inr [sampleText ''a.docx'' 1 ''this is the context''])"
  by (simp add: applyPostProcessor_def setPostProcessor_def setPostProcessor_private_def startsWith_def
        lower_dot_docx thisBinding_def reportThis_def sampleText_def)

section \<open>The extension override\<close>

text \<open>
  Claim C4, at an input where the code departs from it. With the override \<^verbatim>\<open>pdf\<close> (no
  leading dot) \<^verbatim>\<open>extract\<close> dispatches on \<^verbatim>\<open>pdf\<close>: no extractor is called, the single result
  reports the unsupported extension \<^verbatim>\<open>pdf\<close>, and a processor registered through
  \<^verbatim>\<open>setPostProcessor('pdf', ...)\<close>, which is stored under \<^verbatim>\<open>.pdf\<close>, is not found.
\<close>

theorem extractFile_override_without_dot:
  "extractFile w (setPostProcessor ''pdf'' input Map.empty) filePath
       (Some \<lparr>extension = Some ''pdf'', pdf = None, progressCallback = None\<rparr>)
     = ([], Inr [errorResult (path_basename w filePath) 1
                   (''DocSuite: unsupported extension '' @ [CHR 0x22] @ ''pdf'' @ [CHR 0x22])])"
  by (simp add: extractFile_def resolvedExt_def lower_pdf Let_def unsupportedMessage_def
        setPostProcessor_def startsWith_def setPostProcessor_private_entry applyPostProcessor_def
        lower_dot_pdf ret_def bind_def)

section \<open>Unsupported extensions\<close>

text \<open>
  Claim C7. When the resolved extension is none of \<^verbatim>\<open>.docx\<close>, \<^verbatim>\<open>.xlsx\<close>, \<^verbatim>\<open>.xls\<close>, \<^verbatim>\<open>.pptx\<close>,
  \<^verbatim>\<open>.pdf\<close> (the empty extension included), \<^verbatim>\<open>extract\<close> is the post-processor step applied,
  under that same extension, to exactly one synthetic result: type null, the base name
  of the path, page 1 and the error naming the extension in double quotes. It makes no
  call of any extractor, and with no processor registered for the extension that one
  result is what it returns.
\<close>

theorem extractFile_unsupported_extension:
  assumes "resolvedExt w filePath options \<notin> {''.docx'', ''.xlsx'', ''.xls'', ''.pptx'', ''.pdf''}"
  shows "extractFile w reg filePath options =
           applyPostProcessor reg (resolvedExt w filePath options)
             [\<lparr>type = None, fileName = path_basename w filePath, page = 1, contents = None,
               error = Some (''DocSuite: unsupported extension '' @ [CHR 0x22]
                               @ resolvedExt w filePath options @ [CHR 0x22]),
               isFullPage = None\<rparr>]
         \<and> (\<forall>c \<in> set (fst (extractFile w reg filePath options)). \<not> isExtractorCall c)
         \<and> (reg (resolvedExt w filePath options) = None \<longrightarrow>
              extractFile w reg filePath options =
                ([], Inr [\<lparr>type = None, fileName = path_basename w filePath, page = 1, contents = None,
                           error = Some (''DocSuite: unsupported extension '' @ [CHR 0x22]
                                           @ resolvedExt w filePath options @ [CHR 0x22]),
                           isFullPage = None\<rparr>]))"
proof -
  let ?e = "resolvedExt w filePath options"
  let ?r = "errorResult (path_basename w filePath) 1 (unsupportedMessage ?e)"
  from assms have eq: "extractFile w reg filePath options = applyPostProcessor reg ?e [?r]"
    by (simp add: extractFile_def Let_def bind_ret)
  have r: "?r = \<lparr>type = None, fileName = path_basename w filePath, page = 1, contents = None,
               error = Some (''DocSuite: unsupported extension '' @ [CHR 0x22] @ ?e @ [CHR 0x22]),
               isFullPage = None\<rparr>"
    by (simp add: errorResult_def unsupportedMessage_def)
  show ?thesis
    unfolding eq r [symmetric]
    using applyPostProcessor_log [of _ reg ?e "[?r]"]
    by (auto simp: applyPostProcessor_none)
qed

theorem extractFile_unsupported_extension_witness:
  "extractFile txtWorld Map.empty ''notes.TXT'' None
     = ([], Inr [\<lparr>type = None, fileName = ''notes.TXT'', page = 1, contents = None,
                  error = Some (''DocSuite: unsupported extension '' @ [CHR 0x22] @ ''.txt'' @ [CHR 0x22]),
                  isFullPage = None\<rparr>])"
proof -
  have e: "resolvedExt txtWorld ''notes.TXT'' None = ''.txt''"
    by (simp add: resolvedExt_path lower_dot_TXT txtWorld_def)
  have b: "path_basename txtWorld ''notes.TXT'' = ''notes.TXT''"
    by (simp add: quietWorld_def txtWorld_def)
  have h: "resolvedExt txtWorld ''notes.TXT'' None \<notin> {''.docx'', ''.xlsx'', ''.xls'', ''.pptx'', ''.pdf''}"
    by (simp add: e)
  have "extractFile txtWorld Map.empty ''notes.TXT'' None =
          applyPostProcessor Map.empty (resolvedExt txtWorld ''notes.TXT'' None)
            [\<lparr>type = None, fileName = path_basename txtWorld ''notes.TXT'', page = 1, contents = None,
              error = Some (''DocSuite: unsupported extension '' @ [CHR 0x22]
                              @ resolvedExt txtWorld ''notes.TXT'' None @ [CHR 0x22]),
              isFullPage = None\<rparr>]"
    by (rule extractFile_unsupported_extension [OF h, of Map.empty, THEN conjunct1])
  then show ?thesis
    unfolding e b by (simp add: applyPostProcessor_none)
qed

section \<open>What escapes from the entry point\<close>

text \<open>
  Claim C2, at the input where the code departs from it. \<^verbatim>\<open>extractPdf\<close> constructs the
  Poppler wrapper before its \<^verbatim>\<open>try\<close> block. When that construction throws, the value
  thrown is not turned into a result: \<^verbatim>\<open>extract\<close> on a path that resolves to \<^verbatim>\<open>.pdf\<close>
  rejects with it, whatever the registry and the options.
\<close>

theorem extractFile_rejects_when_Poppler_constructor_throws:
  assumes "new_Poppler w = Inl e" and "resolvedExt w filePath options = ''.pdf''"
  shows "extractFile w reg filePath options = ([NewPoppler], Inl e)"
  using assms by (simp add: extractFile_def Let_def extractPdf_def ext_call_def bind_Inl)

theorem extractFile_rejects_when_Poppler_constructor_throws_witness:
  "extractFile noPopplerWorld Map.empty ''report.pdf'' None
     = ([NewPoppler], Inl (ErrorObj ''Unable to find linux Poppler binaries''))"
  using extractFile_rejects_when_Poppler_constructor_throws
      [of noPopplerWorld "ErrorObj ''Unable to find linux Poppler binaries''" "''report.pdf''" None Map.empty]
  by (simp add: resolvedExt_path lower_dot_pdf noPopplerWorld_def)

text \<open>A second way out: a processor that freezes the result and throws makes the
  \<^verbatim>\<open>catch\<close> block of the post-processor step throw, and \<^verbatim>\<open>extract\<close> rejects with that.\<close>

lemma extractFile_rejects_when_catch_block_throws:
  "extractFile docxWorld (setDocxPostProcessor (PlainFunction freezeThenThrow) Map.empty) ''a.docx'' None
     = ([MammothExtractRawText ''a.docx'', CallProcessor ''.docx'' (ThisEntry None),
         ConsoleError ''Post-processor for .docx failed:''],
        Inl (ErrorObj ''Cannot assign to read only property error''))"
proof -
  have e: "resolvedExt docxWorld ''a.docx'' None = ''.docx''"
    by (simp add: resolvedExt_path docxWorld_def lower_dot_docx)
  have d: "extractDocx docxWorld ''a.docx'' =
      ([MammothExtractRawText ''a.docx''], Inr [sampleText ''a.docx'' 1 []])"
    by (simp add: extractDocx_def docxWorld_def quietWorld_def ext_call_def bind_Inr try_catch_Inr
          ret_def trim_def sampleText_def)
  show ?thesis
    unfolding extractFile_def Let_def e d
    by (simp add: bind_Inr applyPostProcessor_def setDocxPostProcessor_def setPostProcessor_private_def
          thisBinding_def freezeThenThrow_def message_or_String_def assignError_def)
qed

section \<open>Pages of a PDF\<close>

lemma processPage_after_fullPage:
  assumes "callbackReturns callback pageNum pageCount"
    and "fullPageStage w filePath name pageNum = (lf, Inr pageResults)"
  shows "processPage w filePath name format True callback pageCount pageNum =
           (case try_catch (textAndImageStages w filePath name format pageNum pageResults)
                   (\<lambda>pageError. ret [errorResult name pageNum
                      (message_or pageError (''Error processing page '' @ show_nat pageNum))]) of
              (l, r) \<Rightarrow> (callbackLog callback pageNum pageCount @ lf @ l, r))"
  using assms
  by (cases callback)
     (simp_all add: processPage_def callbackReturns_def callbackLog_def bind_ret ext_call_def bind_Inr
        split: prod.splits)

lemma pagesLoop_step:
  assumes "pageNum \<le> pageCount" and "body pageNum = (l, Inr rs)"
  shows "pagesLoop body pageCount pageNum results =
           (l @ fst (pagesLoop body pageCount (Suc pageNum) (results @ rs)),
            snd (pagesLoop body pageCount (Suc pageNum) (results @ rs)))"
  using assms by (subst pagesLoop.simps) (simp add: bind_Inr)

text \<open>
  Claim C9. On a page processed with \<^verbatim>\<open>fullPageImage\<close>, let the full-page stage have pushed
  results onto the accumulator of the page, and let the text stage or the embedded-image
  stage then throw \<open>e\<close>. The page contributes exactly one record: type null, the page
  number, and the message of \<open>e\<close> (or \<^verbatim>\<open>Error processing page N\<close>). The accumulated results
  are dropped, and the loop goes on to the next page with that one record appended.
\<close>

theorem processPage_discards_pageResults:
  assumes "callbackReturns callback pageNum pageCount"
    and "fullPageStage w filePath name pageNum = (lf, Inr pageResults)"
    and "pageResults \<noteq> []"
    and "textAndImageStages w filePath name format pageNum pageResults = (lt, Inl e)"
  shows "processPage w filePath name format True callback pageCount pageNum =
           (callbackLog callback pageNum pageCount @ lf @ lt,
            Inr [errorResult name pageNum (message_or e (''Error processing page '' @ show_nat pageNum))])
         \<and> (pageNum \<le> pageCount \<longrightarrow>
              snd (pagesLoop (processPage w filePath name format True callback pageCount)
                     pageCount pageNum results) =
              snd (pagesLoop (processPage w filePath name format True callback pageCount)
                     pageCount (Suc pageNum)
                     (results @ [errorResult name pageNum
                        (message_or e (''Error processing page '' @ show_nat pageNum))])))"
proof -
  have p: "processPage w filePath name format True callback pageCount pageNum =
           (callbackLog callback pageNum pageCount @ lf @ lt,
            Inr [errorResult name pageNum (message_or e (''Error processing page '' @ show_nat pageNum))])"
    using assms by (simp add: processPage_after_fullPage try_catch_Inl ret_def)
  show ?thesis
    using p pagesLoop_step
        [where body = "processPage w filePath name format True callback pageCount"
           and pageNum = pageNum and pageCount = pageCount and results = results, OF _ p]
    by simp
qed

lemma fullPageStage_textFailsWorld:
  "fullPageStage textFailsWorld ''doc.pdf'' ''doc.pdf'' 1 =
     ([FsMkdir 1 FullPageStage, PdfToCairo ''doc.pdf'' 1, FsAccess ''cairo-output-00-p1.jpg'',
       FsReadFile ''cairo-output-00-p1.jpg'', FsRm ''cairo-output-00-p1.jpg'', SharpJpeg],
      Inr [\<lparr>type = Some Image, fileName = ''doc.pdf'', page = 1,
             contents = Some ''data:image/jpeg;base64,JFIF'', error = None, isFullPage = Some True\<rparr>])"
  by (simp add: fullPageStage_def textFailsWorld_def renderWorld_def quietWorld_def ext_call_def
        bind_Inr try_catch_Inr ret_def Let_def show_nat_1)

lemma textAndImageStages_textFailsWorld:
  "textAndImageStages textFailsWorld ''doc.pdf'' ''doc.pdf'' Native 1 rs =
     ([PdfToText ''doc.pdf'' 1], Inl (ErrorObj ''Syntax Error''))"
  by (simp add: textAndImageStages_def textFailsWorld_def ext_call_def bind_Inl)

theorem processPage_discards_pageResults_witness:
  "processPage textFailsWorld ''doc.pdf'' ''doc.pdf'' Native True None 1 1 =
     ([FsMkdir 1 FullPageStage, PdfToCairo ''doc.pdf'' 1, FsAccess ''cairo-output-00-p1.jpg'',
       FsReadFile ''cairo-output-00-p1.jpg'', FsRm ''cairo-output-00-p1.jpg'', SharpJpeg,
       PdfToText ''doc.pdf'' 1],
      Inr [\<lparr>type = None, fileName = ''doc.pdf'', page = 1, contents = None,
             error = Some ''Syntax Error'', isFullPage = None\<rparr>])"
  using processPage_discards_pageResults
      [where callback = None and pageCount = 1,
       OF _ fullPageStage_textFailsWorld _ textAndImageStages_textFailsWorld, THEN conjunct1]
  by (simp add: callbackReturns_def callbackLog_def errorResult_def message_or_def)

section \<open>The full-page render stage\<close>





lemma textAndImageStages_starts_with_text:
  "\<exists>l r. textAndImageStages w filePath name format pageNum pageResults = (PdfToText filePath pageNum # l, r)"
  by (cases "pdfToText w filePath pageNum")
     (simp_all add: textAndImageStages_def ext_call_def bind_Inl bind_Inr)

lemma processPage_runs_text_stage:
  assumes "callbackReturns callback pageNum pageCount"
    and "fullPageStage w filePath name pageNum = (lf, Inr pageResults)"
  shows "\<exists>l r. processPage w filePath name format True callback pageCount pageNum =
           (callbackLog callback pageNum pageCount @ lf @ PdfToText filePath pageNum # l, r)"
proof -
  obtain l r where t: "textAndImageStages w filePath name format pageNum pageResults =
      (PdfToText filePath pageNum # l, r)"
    using textAndImageStages_starts_with_text by blast
  show ?thesis
    unfolding processPage_after_fullPage [OF assms] t
    by (cases r) (simp_all add: try_catch_Inl try_catch_Inr)
qed













section \<open>The page count\<close>

lemma digit_not_space: "isDigit c \<Longrightarrow> \<not> isSpace c"
  by (auto simp: isDigit_def isSpace_def Let_def)

lemma matchPagesAt_Some:
  "matchPagesAt s = Some ds \<longleftrightarrow>
     startsWith s ''Pages:'' \<and> takeWhile isSpace (drop 6 s) \<noteq> []
     \<and> ds = takeWhile isDigit (dropWhile isSpace (drop 6 s)) \<and> ds \<noteq> []"
  by (auto simp: matchPagesAt_def Let_def)

lemma matchPagesAt_sound:
  assumes "matchPagesAt s = Some ds"
  shows "\<exists>ws rest. s = ''Pages:'' @ ws @ ds @ rest \<and> ws \<noteq> [] \<and> list_all isSpace ws
            \<and> ds \<noteq> [] \<and> list_all isDigit ds \<and> (rest = [] \<or> \<not> isDigit (hd rest))"
proof -
  let ?r = "drop 6 s"
  let ?rest = "dropWhile isDigit (dropWhile isSpace ?r)"
  from assms have sw: "startsWith s ''Pages:''" and ws: "takeWhile isSpace ?r \<noteq> []"
    and ds: "ds = takeWhile isDigit (dropWhile isSpace ?r)" and ne: "ds \<noteq> []"
    unfolding matchPagesAt_Some by blast+
  have len: "length ''Pages:'' = 6" by simp
  have st: "take 6 s = ''Pages:''"
    using sw unfolding startsWith_def len .
  have "s = take 6 s @ ?r" by simp
  also have "?r = takeWhile isSpace ?r @ dropWhile isSpace ?r" by simp
  also have "dropWhile isSpace ?r = ds @ ?rest"
    unfolding ds by simp
  finally have "s = ''Pages:'' @ takeWhile isSpace ?r @ ds @ ?rest"
    unfolding st by simp
  moreover have "list_all isSpace (takeWhile isSpace ?r)"
    by (auto simp: list_all_iff dest: set_takeWhileD)
  moreover have "list_all isDigit ds"
    unfolding ds by (auto simp: list_all_iff dest: set_takeWhileD)
  moreover have "?rest = [] \<or> \<not> isDigit (hd ?rest)"
    using hd_dropWhile [of isDigit "dropWhile isSpace ?r"] by blast
  ultimately show ?thesis using ws ne by blast
qed




lemma takeWhile_digits:
  assumes "list_all isDigit ds" and "rest = [] \<or> \<not> isDigit (hd rest)"
  shows "takeWhile isDigit (ds @ rest) = ds"
proof -
  have "takeWhile isDigit rest = []"
    using assms(2) by (cases rest) auto
  with assms(1) show ?thesis
    by (simp add: takeWhile_append2 list_all_iff)
qed

lemma matchPagesAt_exact:
  assumes "ws \<noteq> []" and "list_all isSpace ws" and "ds \<noteq> []" and "list_all isDigit ds"
    and "rest = [] \<or> \<not> isDigit (hd rest)"
  shows "matchPagesAt (''Pages:'' @ ws @ ds @ rest) = Some ds"
proof -
  obtain a ws' where ws: "ws = a # ws'" using assms(1) by (cases ws) auto
  obtain d ds' where ds: "ds = d # ds'" using assms(3) by (cases ds) auto
  have a: "isSpace a" using assms(2) ws by simp
  have d: "isDigit d" using assms(4) ds by simp
  have dr: "dropWhile isSpace (ws @ ds @ rest) = ds @ rest"
  proof -
    have "dropWhile isSpace (ws @ ds @ rest) = dropWhile isSpace (ds @ rest)"
      using assms(2) by (intro dropWhile_append2) (simp add: list_all_iff)
    also have "\<dots> = ds @ rest"
      using d ds by (simp add: digit_not_space)
    finally show ?thesis .
  qed
  have tk: "takeWhile isSpace (ws @ ds @ rest) \<noteq> []"
    using a ws by simp
  have td: "takeWhile isDigit (ds @ rest) = ds"
    using assms(4,5) by (rule takeWhile_digits)
  have st: "startsWith (''Pages:'' @ ws @ ds @ rest) ''Pages:''"
    by (simp add: startsWith_def)
  have dp: "drop 6 (''Pages:'' @ ws @ ds @ rest) = ws @ ds @ rest"
    by simp
  show ?thesis
    unfolding matchPagesAt_Some dp dr td using st tk assms(3) by simp
qed

lemma matchPagesAt_pattern:
  assumes "ws \<noteq> []" and "list_all isSpace ws" and "ds \<noteq> []" and "list_all isDigit ds"
  shows "\<exists>ds'. matchPagesAt (''Pages:'' @ ws @ ds @ rest) = Some ds'"
proof -
  let ?ds = "ds @ takeWhile isDigit rest" and ?rest = "dropWhile isDigit rest"
  have e: "''Pages:'' @ ws @ ds @ rest = ''Pages:'' @ ws @ ?ds @ ?rest"
    by simp
  have "list_all isDigit ?ds"
    using assms(4) by (auto simp: list_all_iff dest: set_takeWhileD)
  moreover have "?rest = [] \<or> \<not> isDigit (hd ?rest)"
    using hd_dropWhile [of isDigit rest] by blast
  moreover have "?ds \<noteq> []"
    using assms(3) by simp
  ultimately have "matchPagesAt (''Pages:'' @ ws @ ?ds @ ?rest) = Some ?ds"
    using assms(1,2) by (intro matchPagesAt_exact)
  then show ?thesis
    unfolding e [symmetric] by blast
qed

lemma not_space_P: "\<not> isSpace (CHR ''P'')" and not_digit_P: "\<not> isDigit (CHR ''P'')"
  by (simp_all add: isSpace_def isDigit_def)

lemma matchPagesAt_inside:
  assumes m: "matchPagesAt (pre @ CHR ''P'' # Y) = Some d" and ne: "pre \<noteq> []"
  shows "hasPagesPattern pre"
proof -
  from matchPagesAt_sound [OF m] obtain ws rest where
    eq: "pre @ CHR ''P'' # Y = ''Pages:'' @ ws @ d @ rest"
    and ws: "ws \<noteq> []" "list_all isSpace ws" and dd: "d \<noteq> []" "list_all isDigit d"
    by blast
  obtain d0 d' where d: "d = d0 # d'" using dd(1) by (cases d) auto
  have d0: "isDigit d0" using dd(2) d by simp
  let ?u = "''Pages:'' @ ws @ [d0]"
  have "pre @ (CHR ''P'' # Y) = ?u @ (d' @ rest)"
    using eq d by simp
  then obtain us where us: "pre = ?u @ us \<and> us @ (CHR ''P'' # Y) = d' @ rest
      \<or> pre @ us = ?u \<and> CHR ''P'' # Y = us @ (d' @ rest)"
    unfolding append_eq_append_conv2 by blast
  have goal_if: "hasPagesPattern pre" if "pre = ?u @ t" for t
  proof -
    have "pre = [] @ ''Pages:'' @ ws @ [d0] @ t \<and> ws \<noteq> [] \<and> list_all isSpace ws
            \<and> [d0] \<noteq> [] \<and> list_all isDigit [d0]"
      using that ws d0 by simp
    then show ?thesis unfolding hasPagesPattern_def by blast
  qed
  from us show ?thesis
  proof
    assume "pre = ?u @ us \<and> us @ (CHR ''P'' # Y) = d' @ rest"
    then show ?thesis using goal_if by blast
  next
    assume b: "pre @ us = ?u \<and> CHR ''P'' # Y = us @ (d' @ rest)"
    show ?thesis
    proof (cases us)
      case Nil
      with b have "pre = ?u @ []" by simp
      then show ?thesis by (rule goal_if)
    next
      case (Cons x us')
      with b have x: "x = CHR ''P''" by simp
      obtain p pre' where pre: "pre = p # pre'" using ne by (cases pre) auto
      from b Cons x pre have "tl ?u = pre' @ CHR ''P'' # us'"
        by (metis append_Cons list.sel(3))
      then have "CHR ''P'' \<in> set (tl ?u)" by simp
      moreover have "tl ?u = ''ages:'' @ ws @ [d0]" by simp
      ultimately have "CHR ''P'' \<in> set ws \<or> CHR ''P'' = d0"
        by auto
      with ws(2) d0 not_space_P not_digit_P show ?thesis
        by (auto simp: list_all_iff)
    qed
  qed
qed

lemma hasPagesPattern_Cons: "hasPagesPattern pre \<Longrightarrow> hasPagesPattern (c # pre)"
proof -
  assume "hasPagesPattern pre"
  then obtain p ws ds rest where "pre = p @ ''Pages:'' @ ws @ ds @ rest"
    and h: "ws \<noteq> []" "list_all isSpace ws" "ds \<noteq> []" "list_all isDigit ds"
    unfolding hasPagesPattern_def by blast
  then have "c # pre = (c # p) @ ''Pages:'' @ ws @ ds @ rest" by simp
  with h show ?thesis unfolding hasPagesPattern_def by blast
qed

lemma matchPages_first:
  assumes "\<not> hasPagesPattern pre" and "ws \<noteq> []" and "list_all isSpace ws" and "ds \<noteq> []"
    and "list_all isDigit ds" and "rest = [] \<or> \<not> isDigit (hd rest)"
  shows "matchPages (pre @ ''Pages:'' @ ws @ ds @ rest) = Some ds"
  using assms(1)
proof (induction pre)
  case Nil
  have "matchPagesAt (''Pages:'' @ ws @ ds @ rest) = Some ds"
    using assms(2-6) by (rule matchPagesAt_exact)
  then show ?case by simp
next
  case (Cons c pre)
  have n: "\<not> hasPagesPattern pre"
    using Cons.prems hasPagesPattern_Cons by blast
  have "matchPagesAt ((c # pre) @ CHR ''P'' # (''ages:'' @ ws @ ds @ rest)) = None"
  proof (cases "matchPagesAt ((c # pre) @ CHR ''P'' # (''ages:'' @ ws @ ds @ rest))")
    case None
    then show ?thesis .
  next
    case (Some d)
    from matchPagesAt_inside [OF Some] Cons.prems show ?thesis by simp
  qed
  then have "matchPagesAt (c # (pre @ ''Pages:'' @ ws @ ds @ rest)) = None"
    by simp
  with Cons.IH [OF n] show ?case
    by simp
qed

lemma firstPagesMatch_matchPages: "firstPagesMatch s ds \<Longrightarrow> matchPages s = Some ds"
  unfolding firstPagesMatch_def using matchPages_first by blast

lemma matchPages_append:
  "matchPages s \<noteq> None \<Longrightarrow> matchPages (pre @ s) \<noteq> None"
  by (induction pre) (auto split: option.splits)

lemma matchPages_complete:
  assumes "hasPagesPattern s"
  shows "matchPages s \<noteq> None"
proof -
  from assms obtain pre ws ds rest where s: "s = pre @ ''Pages:'' @ ws @ ds @ rest"
    and h: "ws \<noteq> []" "list_all isSpace ws" "ds \<noteq> []" "list_all isDigit ds"
    unfolding hasPagesPattern_def by blast
  from matchPagesAt_pattern [OF h] obtain ds' where
    "matchPagesAt (''Pages:'' @ ws @ ds @ rest) = Some ds'" by blast
  then have "matchPages (''Pages:'' @ ws @ ds @ rest) \<noteq> None"
    by simp
  then show ?thesis
    unfolding s by (rule matchPages_append)
qed

lemma hasPagesPattern_Nil: "\<not> hasPagesPattern []"
  by (simp add: hasPagesPattern_def)

lemma matchPages_firstPagesMatch: "matchPages s = Some ds \<Longrightarrow> firstPagesMatch s ds"
proof (induction s)
  case Nil
  then show ?case by simp
next
  case (Cons c cs)
  show ?case
  proof (cases "matchPagesAt (c # cs)")
    case (Some d)
    with Cons.prems have d: "d = ds" by simp
    from matchPagesAt_sound [OF Some] obtain ws rest where
      "c # cs = [] @ ''Pages:'' @ ws @ ds @ rest \<and> \<not> hasPagesPattern [] \<and> ws \<noteq> []
         \<and> list_all isSpace ws \<and> ds \<noteq> [] \<and> list_all isDigit ds
         \<and> (rest = [] \<or> \<not> isDigit (hd rest))"
      unfolding d using hasPagesPattern_Nil by auto
    then show ?thesis unfolding firstPagesMatch_def by blast
  next
    case None
    with Cons.prems have "matchPages cs = Some ds" by simp
    from Cons.IH [OF this] obtain pre ws rest where cs: "cs = pre @ ''Pages:'' @ ws @ ds @ rest"
      and n: "\<not> hasPagesPattern pre"
      and h: "ws \<noteq> []" "list_all isSpace ws" "ds \<noteq> []" "list_all isDigit ds"
      and r: "rest = [] \<or> \<not> isDigit (hd rest)"
      unfolding firstPagesMatch_def by blast
    have "\<not> hasPagesPattern (c # pre)"
    proof
      assume "hasPagesPattern (c # pre)"
      then obtain p0 ws0 ds0 r0 where e: "c # pre = p0 @ ''Pages:'' @ ws0 @ ds0 @ r0"
        and h0: "ws0 \<noteq> []" "list_all isSpace ws0" "ds0 \<noteq> []" "list_all isDigit ds0"
        unfolding hasPagesPattern_def by blast
      show False
      proof (cases p0)
        case Nil
        with e cs have "c # cs = ''Pages:'' @ ws0 @ ds0 @ (r0 @ ''Pages:'' @ ws @ ds @ rest)"
          by simp
        with matchPagesAt_pattern [OF h0, of "r0 @ ''Pages:'' @ ws @ ds @ rest"] None
        show False by simp
      next
        case (Cons x p0')
        with e have "pre = p0' @ ''Pages:'' @ ws0 @ ds0 @ r0" by simp
        with h0 have "hasPagesPattern pre" unfolding hasPagesPattern_def by blast
        with n show False ..
      qed
    qed
    moreover have "c # cs = (c # pre) @ ''Pages:'' @ ws @ ds @ rest"
      using cs by simp
    ultimately show ?thesis
      unfolding firstPagesMatch_def using h r by blast
  qed
qed

lemma firstPagesMatch_iff: "firstPagesMatch s ds \<longleftrightarrow> matchPages s = Some ds"
  using firstPagesMatch_matchPages matchPages_firstPagesMatch by blast

lemma hasPagesPattern_iff: "hasPagesPattern s \<longleftrightarrow> (\<exists>ds. firstPagesMatch s ds)"
proof
  assume "hasPagesPattern s"
  from matchPages_complete [OF this] obtain ds where "matchPages s = Some ds" by blast
  then show "\<exists>ds. firstPagesMatch s ds"
    using matchPages_firstPagesMatch by blast
next
  assume "\<exists>ds. firstPagesMatch s ds"
  then obtain pre ws ds rest where "s = pre @ ''Pages:'' @ ws @ ds @ rest"
    "ws \<noteq> []" "list_all isSpace ws" "ds \<noteq> []" "list_all isDigit ds"
    unfolding firstPagesMatch_def by blast
  then show "hasPagesPattern s" unfolding hasPagesPattern_def by blast
qed







text \<open>Every report falls under one of the cases of the theorem.\<close>

lemma pdfInfo_cases:
  "info = InfoObject
   \<or> (\<exists>s. info = InfoString s \<and> \<not> hasPagesPattern s)
   \<or> (\<exists>s ds. info = InfoString s \<and> firstPagesMatch s ds)"
  using hasPagesPattern_iff by (cases info) auto







section \<open>How many results an extractor returns\<close>

lemma textAndImageStages_nonempty:
  "yields (textAndImageStages w filePath name format pageNum pageResults) (\<lambda>rs. rs \<noteq> [])"
  unfolding textAndImageStages_def Let_def
  by (intro yields_bind yields_ret) simp

lemma processPage_nonempty:
  "yields (processPage w filePath name format fullPage callback pageCount pageNum) (\<lambda>rs. rs \<noteq> [])"
  unfolding processPage_def
  by (intro yields_bind yields_try_catch textAndImageStages_nonempty yields_ret) simp

lemma pagesLoop_nonempty:
  "(\<And>k. yields (body k) (\<lambda>rs. rs \<noteq> [])) \<Longrightarrow> results \<noteq> [] \<or> pageNum \<le> pageCount \<Longrightarrow>
     yields (pagesLoop body pageCount pageNum results) (\<lambda>rs. rs \<noteq> [])"
proof (induction body pageCount pageNum results rule: pagesLoop.induct)
  case (1 body pageCount pageNum results)
  show ?case
  proof (cases "pageNum \<le> pageCount")
    case True
    have step: "yields (pagesLoop body pageCount (Suc pageNum) (results @ prs)) (\<lambda>rs. rs \<noteq> [])"
      if "prs \<noteq> []" for prs
      using "1.IH" [OF True "1.prems"(1)] that by simp
    have "yields (bind (body pageNum) (\<lambda>prs. pagesLoop body pageCount (Suc pageNum) (results @ prs)))
            (\<lambda>rs. rs \<noteq> [])"
      using "1.prems"(1) [of pageNum] step
      by (cases "body pageNum"; cases "snd (body pageNum)")
         (auto simp: yields_def bind_def split: prod.splits)
    with True show ?thesis
      by (subst pagesLoop.simps) simp
  next
    case False
    with "1.prems"(2) show ?thesis
      by (subst pagesLoop.simps) (simp add: yields_ret)
  qed
qed

lemma extractPdf_returns_nonempty:
  assumes "new_Poppler w = Inr ()"
  shows "\<exists>l rs. extractPdf w filePath options callback = (l, Inr rs) \<and> rs \<noteq> []"
proof -
  let ?name = "path_basename w filePath"
  let ?h = "\<lambda>e. ret [errorResult ?name 1
                   (message_or e ''An unknown error occurred while parsing the .pdf file.'')]"
  obtain m where m: "extractPdf w filePath options callback =
      bind (ext_call NewPoppler (Inr ())) (\<lambda>poppler. try_catch m ?h)"
    and y: "yields m (\<lambda>rs. rs \<noteq> [])"
  proof
    show "extractPdf w filePath options callback =
      bind (ext_call NewPoppler (Inr ())) (\<lambda>poppler. try_catch
         (bind (ext_call (PdfInfo filePath) (pdfInfo w filePath))
                   (\<lambda>info. let pageCount = pageCountOf info
                      in if pageCount = 0
                         then ret [errorResult ?name 1 ''Unable to determine PDF page count'']
                         else pagesLoop (processPage w filePath ?name
                               (case options of None \<Rightarrow> Native
                                | Some opts \<Rightarrow> (case imageFormat opts of None \<Rightarrow> Native | Some f \<Rightarrow> f))
                               (case options of None \<Rightarrow> False
                                | Some opts \<Rightarrow> (case fullPageImage opts of None \<Rightarrow> False | Some b \<Rightarrow> b))
                               callback pageCount)
                                pageCount 1 [])) ?h)"
      using assms by (simp add: extractPdf_def Let_def)
    show "yields (bind (ext_call (PdfInfo filePath) (pdfInfo w filePath))
                   (\<lambda>info. let pageCount = pageCountOf info
                      in if pageCount = 0
                         then ret [errorResult ?name 1 ''Unable to determine PDF page count'']
                         else pagesLoop (processPage w filePath ?name
                               (case options of None \<Rightarrow> Native
                                | Some opts \<Rightarrow> (case imageFormat opts of None \<Rightarrow> Native | Some f \<Rightarrow> f))
                               (case options of None \<Rightarrow> False
                                | Some opts \<Rightarrow> (case fullPageImage opts of None \<Rightarrow> False | Some b \<Rightarrow> b))
                               callback pageCount)
                                pageCount 1 [])) (\<lambda>rs. rs \<noteq> [])"
      by (intro yields_bind) (simp add: Let_def yields_ret pagesLoop_nonempty processPage_nonempty)
  qed
  have "yields (try_catch m ?h) (\<lambda>rs. rs \<noteq> [])"
    by (intro yields_try_catch y yields_ret) simp
  moreover have "\<exists>l a. try_catch m ?h = (l, Inr a)"
    by (rule try_catch_returns) (simp add: ret_def)
  ultimately show ?thesis
    unfolding m by (auto simp: ext_call_def bind_Inr yields_def)
qed


lemma extractDocx_one: "\<exists>l r. extractDocx w filePath = (l, Inr [r])"
  by (cases "mammoth_extractRawText w filePath")
     (simp_all add: extractDocx_def Let_def ext_call_def bind_Inl bind_Inr try_catch_Inl try_catch_Inr ret_def)

lemma extractDocx_throws:
  "mammoth_extractRawText w filePath = Inl e \<Longrightarrow>
     extractDocx w filePath = ([MammothExtractRawText filePath],
        Inr [errorResult (path_basename w filePath) 1
               (message_or e ''An unknown error occurred while parsing the .docx file.'')])"
  by (simp add: extractDocx_def Let_def ext_call_def bind_Inl try_catch_Inl ret_def)

lemma sheetsToResults_ok:
  "sheetsToResults name index (map Inr csvs) =
     (map SheetToCsv [index ..< index + length csvs],
      Inr (map (\<lambda>(i, csv). \<lparr>type = Some Csv, fileName = name, page = i + 1, contents = Some csv,
                               error = None, isFullPage = None\<rparr>) (enumerate index csvs)))"
proof (induction csvs arbitrary: index)
  case Nil
  then show ?case by (simp add: ret_def)
next
  case (Cons csv csvs)
  have "[index ..< index + length (csv # csvs)] = index # [Suc index ..< Suc index + length csvs]"
    by (simp add: upt_rec)
  then show ?case
    by (simp add: Cons.IH ext_call_def bind_Inr ret_def)
qed

lemma extractXlsx_ok:
  "XLSX_readFile w filePath = Inr (map Inr csvs) \<Longrightarrow>
     snd (extractXlsx w filePath) =
       Inr (map (\<lambda>(i, csv). \<lparr>type = Some Csv, fileName = path_basename w filePath, page = i + 1,
                                contents = Some csv, error = None, isFullPage = None\<rparr>) (enumerate 0 csvs))"
  by (simp add: extractXlsx_def Let_def ext_call_def bind_Inr sheetsToResults_ok try_catch_Inr)

lemma extractXlsx_throws:
  "XLSX_readFile w filePath = Inl e \<Longrightarrow>
     extractXlsx w filePath = ([XlsxReadFile filePath],
        Inr [errorResult (path_basename w filePath) 1
               (message_or e ''An unknown error occurred while parsing the .xlsx file.'')])"
  by (simp add: extractXlsx_def Let_def ext_call_def bind_Inl try_catch_Inl ret_def)

lemma extractXlsx_returns: "\<exists>l rs. extractXlsx w filePath = (l, Inr rs)"
  unfolding extractXlsx_def Let_def
  by (rule try_catch_returns) (simp add: ret_def)

lemma extractPptx_ok:
  "PptxParser_extractText w filePath = Inr slides \<Longrightarrow>
     extractPptx w filePath = ([PptxExtractText filePath],
       Inr (map (\<lambda>(i, slide). \<lparr>type = Some Text, fileName = path_basename w filePath, page = i + 1,
                                contents = Some (join [CHR 0x0A] slide), error = None, isFullPage = None\<rparr>)
              (enumerate 0 slides)))"
  by (simp add: extractPptx_def Let_def ext_call_def bind_Inr try_catch_Inr ret_def)

lemma extractPptx_throws:
  "PptxParser_extractText w filePath = Inl e \<Longrightarrow>
     extractPptx w filePath = ([PptxExtractText filePath],
        Inr [errorResult (path_basename w filePath) 1
               (message_or e ''An unknown error occurred while parsing the .pptx file.'')])"
  by (simp add: extractPptx_def Let_def ext_call_def bind_Inl try_catch_Inl ret_def)

lemma extractPdf_info_throws:
  "new_Poppler w = Inr () \<Longrightarrow> pdfInfo w filePath = Inl e \<Longrightarrow>
     extractPdf w filePath options callback = ([NewPoppler, PdfInfo filePath],
        Inr [errorResult (path_basename w filePath) 1
               (message_or e ''An unknown error occurred while parsing the .pdf file.'')])"
  by (simp add: extractPdf_def Let_def ext_call_def bind_Inl bind_Inr try_catch_Inl ret_def)

lemma extractFile_no_processor:
  assumes "reg (resolvedExt w filePath options) = None"
  shows "extractFile w reg filePath options =
     (let e = resolvedExt w filePath options in
      if e = ''.docx'' then extractDocx w filePath
      else if e = ''.xlsx'' \<or> e = ''.xls'' then extractXlsx w filePath
      else if e = ''.pptx'' then extractPptx w filePath
      else if e = ''.pdf'' then
        extractPdf w filePath
          (case options of None \<Rightarrow> None | Some opts \<Rightarrow> pdf opts)
          (case options of None \<Rightarrow> None | Some opts \<Rightarrow> progressCallback opts)
      else ([], Inr [errorResult (path_basename w filePath) 1 (unsupportedMessage e)]))"
proof -
  have "applyPostProcessor reg (resolvedExt w filePath options) = (\<lambda>a. ([], Inr a))"
    using assms by (simp add: fun_eq_iff applyPostProcessor_def ret_def)
  then show ?thesis
    by (simp add: extractFile_def Let_def bind_ret_right ret_def)
qed

lemma extractPptx_returns: "\<exists>l rs. extractPptx w filePath = (l, Inr rs)"
  unfolding extractPptx_def Let_def
  by (rule try_catch_returns) (simp add: ret_def)

lemma firstThrow_None: "firstThrow sheets = None \<Longrightarrow> sheets = map Inr (csvsOf sheets)"
  by (induction sheets rule: firstThrow.induct) simp_all

lemma sheetsToResults_throws:
  "firstThrow sheets = Some e \<Longrightarrow> snd (sheetsToResults name index sheets) = Inl e"
proof (induction sheets arbitrary: index rule: firstThrow.induct)
  case 1
  then show ?case by simp
next
  case (2 e' rest)
  then show ?case by (simp add: ext_call_def bind_Inl)
next
  case (3 c rest)
  then have "snd (sheetsToResults name (Suc index) rest) = Inl e" by simp
  then obtain l where "sheetsToResults name (Suc index) rest = (l, Inl e)"
    by (cases "sheetsToResults name (Suc index) rest") simp
  then show ?case by (simp add: ext_call_def bind_Inr bind_Inl)
qed

lemma extractXlsx_sheets_ok:
  assumes "XLSX_readFile w filePath = Inr sheets" and "firstThrow sheets = None"
  shows "snd (extractXlsx w filePath) =
       Inr (map (\<lambda>(i, csv). \<lparr>type = Some Csv, fileName = path_basename w filePath, page = i + 1,
                                contents = Some csv, error = None, isFullPage = None\<rparr>)
              (enumerate 0 (csvsOf sheets)))"
proof -
  from assms have "XLSX_readFile w filePath = Inr (map Inr (csvsOf sheets))"
    using firstThrow_None by simp
  then show ?thesis by (rule extractXlsx_ok)
qed

lemma extractXlsx_sheet_throws:
  assumes "XLSX_readFile w filePath = Inr sheets" and "firstThrow sheets = Some e"
  shows "snd (extractXlsx w filePath) =
       Inr [errorResult (path_basename w filePath) 1
              (message_or e ''An unknown error occurred while parsing the .xlsx file.'')]"
proof -
  from sheetsToResults_throws [OF assms(2), of "path_basename w filePath" 0] obtain l where
    "sheetsToResults (path_basename w filePath) 0 sheets = (l, Inl e)"
    by (cases "sheetsToResults (path_basename w filePath) 0 sheets") simp
  then show ?thesis
    by (simp add: extractXlsx_def Let_def assms(1) ext_call_def bind_Inr bind_Inl try_catch_Inl ret_def)
qed

lemma extractXlsx_failure:
  assumes "XLSX_readFile w filePath = Inl e
     \<or> (\<exists>sheets. XLSX_readFile w filePath = Inr sheets \<and> firstThrow sheets = Some e)"
  shows "snd (extractXlsx w filePath) =
       Inr [errorResult (path_basename w filePath) 1
              (message_or e ''An unknown error occurred while parsing the .xlsx file.'')]"
  using assms extractXlsx_throws [of w filePath e] extractXlsx_sheet_throws [of w filePath _ e]
  by auto

lemma firstThrow_Nil: "firstThrow sheets = None \<Longrightarrow> csvsOf sheets = [] \<longleftrightarrow> sheets = []"
  by (induction sheets rule: firstThrow.induct) simp_all

lemma extractXlsx_empty_iff:
  "\<exists>l rs. extractXlsx w filePath = (l, Inr rs) \<and> (rs = [] \<longleftrightarrow> XLSX_readFile w filePath = Inr [])"
proof -
  from extractXlsx_returns obtain l rs where x: "extractXlsx w filePath = (l, Inr rs)"
    by blast
  have "rs = [] \<longleftrightarrow> XLSX_readFile w filePath = Inr []"
  proof (cases "XLSX_readFile w filePath")
    case (Inl e)
    with extractXlsx_throws [OF Inl] x show ?thesis by simp
  next
    case (Inr sheets)
    show ?thesis
    proof (cases "firstThrow sheets")
      case None
      from extractXlsx_sheets_ok [OF Inr None] x firstThrow_Nil [OF None] Inr show ?thesis
        by (auto simp: enumerate_eq_zip)
    next
      case (Some e)
      then have "sheets \<noteq> []" by auto
      with extractXlsx_sheet_throws [OF Inr Some] x Inr show ?thesis by simp
    qed
  qed
  with x show ?thesis by blast
qed

lemma extractPptx_empty_iff:
  "\<exists>l rs. extractPptx w filePath = (l, Inr rs)
      \<and> (rs = [] \<longleftrightarrow> PptxParser_extractText w filePath = Inr [])"
proof (cases "PptxParser_extractText w filePath")
  case (Inl e)
  with extractPptx_throws [OF Inl] show ?thesis by simp
next
  case (Inr slides)
  with extractPptx_ok [OF Inr] show ?thesis by (simp add: enumerate_eq_zip)
qed

lemma extractFile_empty_iff:
  assumes "reg (resolvedExt w filePath options) = None" and "new_Poppler w = Inr ()"
  shows "\<exists>l rs. extractFile w reg filePath options = (l, Inr rs)
      \<and> (rs = [] \<longleftrightarrow>
           (resolvedExt w filePath options = ''.xlsx'' \<or> resolvedExt w filePath options = ''.xls'')
             \<and> XLSX_readFile w filePath = Inr []
           \<or> resolvedExt w filePath options = ''.pptx'' \<and> PptxParser_extractText w filePath = Inr [])"
proof -
  let ?e = "resolvedExt w filePath options"
  note f = extractFile_no_processor [where reg = reg and w = w and filePath = filePath
               and options = options, OF assms(1), unfolded Let_def]
  consider (docx) "?e = ''.docx''" | (xlsx) "?e = ''.xlsx'' \<or> ?e = ''.xls''" | (pptx) "?e = ''.pptx''"
    | (pdf) "?e = ''.pdf''"
    | (other) "?e \<noteq> ''.docx''" "?e \<noteq> ''.xlsx''" "?e \<noteq> ''.xls''" "?e \<noteq> ''.pptx''" "?e \<noteq> ''.pdf''"
    by blast
  then show ?thesis
  proof cases
    case docx
    from extractDocx_one [of w filePath] obtain l r where "extractDocx w filePath = (l, Inr [r])"
      by blast
    with f docx show ?thesis by simp
  next
    case xlsx
    from extractXlsx_empty_iff [of w filePath] obtain l rs where
      "extractXlsx w filePath = (l, Inr rs)" "rs = [] \<longleftrightarrow> XLSX_readFile w filePath = Inr []"
      by blast
    with f xlsx show ?thesis by auto
  next
    case pptx
    from extractPptx_empty_iff [of w filePath] obtain l rs where
      "extractPptx w filePath = (l, Inr rs)" "rs = [] \<longleftrightarrow> PptxParser_extractText w filePath = Inr []"
      by blast
    with f pptx show ?thesis by simp
  next
    case pdf
    from extractPdf_returns_nonempty [OF assms(2), of filePath
        "case options of None \<Rightarrow> None | Some opts \<Rightarrow> pdf opts"
        "case options of None \<Rightarrow> None | Some opts \<Rightarrow> progressCallback opts"]
    obtain l rs where "extractPdf w filePath (case options of None \<Rightarrow> None | Some opts \<Rightarrow> pdf opts)
        (case options of None \<Rightarrow> None | Some opts \<Rightarrow> progressCallback opts) = (l, Inr rs)" "rs \<noteq> []"
      by blast
    with f pdf show ?thesis by simp
  next
    case other
    with f show ?thesis by simp
  qed
qed

text \<open>
  Claim C1, as the code has it. \<^verbatim>\<open>extractDocx\<close> returns exactly one result, and \<^verbatim>\<open>extractPdf\<close>,
  once the Poppler wrapper is constructed, returns a non-empty sequence. \<^verbatim>\<open>extractXlsx\<close>
  and \<^verbatim>\<open>extractPptx\<close> never throw, and what they return is empty in one case only: the
  workbook was read and declares no sheet, the deck was read and has no slide. When every
  sheet converts they return one result per sheet, and one per slide, in order and
  numbered from 1. When the parser throws, when the conversion of a sheet throws, or (for a
  PDF) when the metadata query throws, the extractor returns exactly one result with page 1,
  type null and the message of the error, or the fallback text of the format. With no
  post-processor registered for the resolved extension, \<^verbatim>\<open>extract\<close> returns what the
  extractor it dispatches to returns, and the one synthetic result for an unsupported
  extension; so, once the Poppler wrapper can be constructed, it returns a sequence that is
  empty only for the workbook without sheets and the deck without slides.
\<close>

theorem extractors_result_count:
  "(\<exists>l r. extractDocx w filePath = (l, Inr [r]))
   \<and> (new_Poppler w = Inr () \<longrightarrow>
        (\<exists>l rs. extractPdf w filePath pdfOptions callback = (l, Inr rs) \<and> rs \<noteq> []))
   \<and> (\<exists>l rs. extractXlsx w filePath = (l, Inr rs)
         \<and> (rs = [] \<longleftrightarrow> XLSX_readFile w filePath = Inr []))
   \<and> (\<exists>l rs. extractPptx w filePath = (l, Inr rs)
         \<and> (rs = [] \<longleftrightarrow> PptxParser_extractText w filePath = Inr []))
   \<and> (\<forall>sheets. XLSX_readFile w filePath = Inr sheets \<and> firstThrow sheets = None \<longrightarrow>
        snd (extractXlsx w filePath) =
          Inr (map (\<lambda>(i, csv). \<lparr>type = Some Csv, fileName = path_basename w filePath, page = i + 1,
                                   contents = Some csv, error = None, isFullPage = None\<rparr>)
                 (enumerate 0 (csvsOf sheets))))
   \<and> (\<forall>slides. PptxParser_extractText w filePath = Inr slides \<longrightarrow>
        snd (extractPptx w filePath) =
          Inr (map (\<lambda>(i, slide). \<lparr>type = Some Text, fileName = path_basename w filePath, page = i + 1,
                                     contents = Some (join [CHR 0x0A] slide), error = None,
                                     isFullPage = None\<rparr>)
                 (enumerate 0 slides)))
   \<and> (\<forall>e. mammoth_extractRawText w filePath = Inl e \<longrightarrow>
        snd (extractDocx w filePath) =
          Inr [errorResult (path_basename w filePath) 1
                 (message_or e ''An unknown error occurred while parsing the .docx file.'')])
   \<and> (\<forall>e. XLSX_readFile w filePath = Inl e
            \<or> (\<exists>sheets. XLSX_readFile w filePath = Inr sheets \<and> firstThrow sheets = Some e) \<longrightarrow>
        snd (extractXlsx w filePath) =
          Inr [errorResult (path_basename w filePath) 1
                 (message_or e ''An unknown error occurred while parsing the .xlsx file.'')])
   \<and> (\<forall>e. PptxParser_extractText w filePath = Inl e \<longrightarrow>
        snd (extractPptx w filePath) =
          Inr [errorResult (path_basename w filePath) 1
                 (message_or e ''An unknown error occurred while parsing the .pptx file.'')])
   \<and> (\<forall>e. new_Poppler w = Inr () \<and> pdfInfo w filePath = Inl e \<longrightarrow>
        snd (extractPdf w filePath pdfOptions callback) =
          Inr [errorResult (path_basename w filePath) 1
                 (message_or e ''An unknown error occurred while parsing the .pdf file.'')])
   \<and> (reg (resolvedExt w filePath options) = None \<longrightarrow>
        extractFile w reg filePath options =
          (let e = resolvedExt w filePath options in
           if e = ''.docx'' then extractDocx w filePath
           else if e = ''.xlsx'' \<or> e = ''.xls'' then extractXlsx w filePath
           else if e = ''.pptx'' then extractPptx w filePath
           else if e = ''.pdf'' then
             extractPdf w filePath
               (case options of None \<Rightarrow> None | Some opts \<Rightarrow> pdf opts)
               (case options of None \<Rightarrow> None | Some opts \<Rightarrow> progressCallback opts)
           else ([], Inr [errorResult (path_basename w filePath) 1 (unsupportedMessage e)])))
   \<and> (reg (resolvedExt w filePath options) = None \<and> new_Poppler w = Inr () \<longrightarrow>
        (\<exists>l rs. extractFile w reg filePath options = (l, Inr rs)
           \<and> (rs = [] \<longleftrightarrow>
                (resolvedExt w filePath options = ''.xlsx'' \<or> resolvedExt w filePath options = ''.xls'')
                  \<and> XLSX_readFile w filePath = Inr []
                \<or> resolvedExt w filePath options = ''.pptx''
                  \<and> PptxParser_extractText w filePath = Inr [])))"
proof (intro conjI allI impI)
  show "\<exists>l r. extractDocx w filePath = (l, Inr [r])"
    by (rule extractDocx_one)
  show "\<exists>l rs. extractXlsx w filePath = (l, Inr rs) \<and> (rs = [] \<longleftrightarrow> XLSX_readFile w filePath = Inr [])"
    by (rule extractXlsx_empty_iff)
  show "\<exists>l rs. extractPptx w filePath = (l, Inr rs)
          \<and> (rs = [] \<longleftrightarrow> PptxParser_extractText w filePath = Inr [])"
    by (rule extractPptx_empty_iff)
  show "\<exists>l rs. extractPdf w filePath pdfOptions callback = (l, Inr rs) \<and> rs \<noteq> []"
    if "new_Poppler w = Inr ()"
    using that by (rule extractPdf_returns_nonempty)
  show "snd (extractXlsx w filePath) =
          Inr (map (\<lambda>(i, csv). \<lparr>type = Some Csv, fileName = path_basename w filePath, page = i + 1,
                                   contents = Some csv, error = None, isFullPage = None\<rparr>)
                 (enumerate 0 (csvsOf sheets)))"
    if "XLSX_readFile w filePath = Inr sheets \<and> firstThrow sheets = None" for sheets
    using that extractXlsx_sheets_ok by blast
  show "snd (extractPptx w filePath) =
          Inr (map (\<lambda>(i, slide). \<lparr>type = Some Text, fileName = path_basename w filePath, page = i + 1,
                                     contents = Some (join [CHR 0x0A] slide), error = None,
                                     isFullPage = None\<rparr>)
                 (enumerate 0 slides))"
    if "PptxParser_extractText w filePath = Inr slides" for slides
    using that by (simp add: extractPptx_ok)
  show "snd (extractDocx w filePath) =
          Inr [errorResult (path_basename w filePath) 1
                 (message_or e ''An unknown error occurred while parsing the .docx file.'')]"
    if "mammoth_extractRawText w filePath = Inl e" for e
    using that by (simp add: extractDocx_throws)
  show "snd (extractXlsx w filePath) =
          Inr [errorResult (path_basename w filePath) 1
                 (message_or e ''An unknown error occurred while parsing the .xlsx file.'')]"
    if "XLSX_readFile w filePath = Inl e
          \<or> (\<exists>sheets. XLSX_readFile w filePath = Inr sheets \<and> firstThrow sheets = Some e)" for e
    using that by (rule extractXlsx_failure)
  show "snd (extractPptx w filePath) =
          Inr [errorResult (path_basename w filePath) 1
                 (message_or e ''An unknown error occurred while parsing the .pptx file.'')]"
    if "PptxParser_extractText w filePath = Inl e" for e
    using that by (simp add: extractPptx_throws)
  show "snd (extractPdf w filePath pdfOptions callback) =
          Inr [errorResult (path_basename w filePath) 1
                 (message_or e ''An unknown error occurred while parsing the .pdf file.'')]"
    if "new_Poppler w = Inr () \<and> pdfInfo w filePath = Inl e" for e
    using that by (simp add: extractPdf_info_throws)
  show "extractFile w reg filePath options =
          (let e = resolvedExt w filePath options in
           if e = ''.docx'' then extractDocx w filePath
           else if e = ''.xlsx'' \<or> e = ''.xls'' then extractXlsx w filePath
           else if e = ''.pptx'' then extractPptx w filePath
           else if e = ''.pdf'' then
             extractPdf w filePath
               (case options of None \<Rightarrow> None | Some opts \<Rightarrow> pdf opts)
               (case options of None \<Rightarrow> None | Some opts \<Rightarrow> progressCallback opts)
           else ([], Inr [errorResult (path_basename w filePath) 1 (unsupportedMessage e)]))"
    if "reg (resolvedExt w filePath options) = None"
    using that by (rule extractFile_no_processor)
  show "\<exists>l rs. extractFile w reg filePath options = (l, Inr rs)
           \<and> (rs = [] \<longleftrightarrow>
                (resolvedExt w filePath options = ''.xlsx'' \<or> resolvedExt w filePath options = ''.xls'')
                  \<and> XLSX_readFile w filePath = Inr []
                \<or> resolvedExt w filePath options = ''.pptx''
                  \<and> PptxParser_extractText w filePath = Inr [])"
    if "reg (resolvedExt w filePath options) = None \<and> new_Poppler w = Inr ()"
    using that extractFile_empty_iff by blast
qed

text \<open>A workbook whose sheet list is empty and a deck without slides: the extractors,
  and \<^verbatim>\<open>extract\<close>, return the empty sequence. So does \<^verbatim>\<open>extract\<close> on a Word document when the
  processor registered for \<^verbatim>\<open>.docx\<close> returns the empty sequence.\<close>

theorem extractXlsx_empty_workbook_counterexample:
  "extractXlsx quietWorld ''empty.xlsx'' = ([XlsxReadFile ''empty.xlsx''], Inr [])
   \<and> extractPptx quietWorld ''empty.pptx'' = ([PptxExtractText ''empty.pptx''], Inr [])
   \<and> extractFile emptyWorkbookWorld Map.empty ''empty.xlsx'' None = ([XlsxReadFile ''empty.xlsx''], Inr [])
   \<and> extractFile docxWorld (setDocxPostProcessor (PlainFunction returnNothing) Map.empty) ''a.docx'' None
       = ([MammothExtractRawText ''a.docx'', CallProcessor ''.docx'' (ThisEntry None)], Inr [])"
proof -
  have x: "extractXlsx w ''empty.xlsx'' = ([XlsxReadFile ''empty.xlsx''], Inr [])"
    if "XLSX_readFile w ''empty.xlsx'' = Inr []" for w
    using that by (simp add: extractXlsx_def ext_call_def bind_Inr try_catch_Inr ret_def)
  have 1: "extractXlsx quietWorld ''empty.xlsx'' = ([XlsxReadFile ''empty.xlsx''], Inr [])"
    by (rule x) (simp add: quietWorld_def)
  have 2: "extractPptx quietWorld ''empty.pptx'' = ([PptxExtractText ''empty.pptx''], Inr [])"
    by (simp add: extractPptx_def quietWorld_def ext_call_def bind_Inr try_catch_Inr ret_def)
  have e: "resolvedExt emptyWorkbookWorld ''empty.xlsx'' None = ''.xlsx''"
    by (simp add: resolvedExt_path emptyWorkbookWorld_def lower_dot_xlsx)
  have 3: "extractFile emptyWorkbookWorld Map.empty ''empty.xlsx'' None = ([XlsxReadFile ''empty.xlsx''], Inr [])"
    unfolding extractFile_def Let_def e
    by (simp add: x emptyWorkbookWorld_def quietWorld_def bind_Inr applyPostProcessor_none)
  have e': "resolvedExt docxWorld ''a.docx'' None = ''.docx''"
    by (simp add: resolvedExt_path docxWorld_def lower_dot_docx)
  have d: "extractDocx docxWorld ''a.docx'' =
      ([MammothExtractRawText ''a.docx''], Inr [sampleText ''a.docx'' 1 []])"
    by (simp add: extractDocx_def docxWorld_def quietWorld_def ext_call_def bind_Inr try_catch_Inr
          ret_def trim_def sampleText_def)
  have 4: "extractFile docxWorld (setDocxPostProcessor (PlainFunction returnNothing) Map.empty) ''a.docx'' None
       = ([MammothExtractRawText ''a.docx'', CallProcessor ''.docx'' (ThisEntry None)], Inr [])"
    unfolding extractFile_def Let_def e' d
    by (simp add: bind_Inr applyPostProcessor_def setDocxPostProcessor_def setPostProcessor_private_def
          thisBinding_def returnNothing_def)
  from 1 2 3 4 show ?thesis by (intro conjI)
qed

lemma lower_dot_DOCX: "toLowerCase ''.DOCX'' = ''.docx''"
  by code_simp

lemma lower_dot_XLSX: "toLowerCase ''.XLSX'' = ''.xlsx''"
  by code_simp

lemma trim_hello: "trim ''  hello  '' = ''hello''"
  by (simp add: trim_def isSpace_def)

theorem extractors_result_count_witness:
  "snd (extractDocx mixedWorld ''bad.docx'') = Inr [errorResult ''bad.docx'' 1 ''Corrupted zip'']
   \<and> snd (extractXlsx mixedWorld ''good.xlsx'') =
       Inr [\<lparr>type = Some Csv, fileName = ''good.xlsx'', page = 1, contents = Some ''a,b'',
              error = None, isFullPage = None\<rparr>,
            \<lparr>type = Some Csv, fileName = ''good.xlsx'', page = 2, contents = Some ''c'',
              error = None, isFullPage = None\<rparr>]
   \<and> snd (extractXlsx mixedWorld ''bad.xlsx'') =
       Inr [errorResult ''bad.xlsx'' 1 ''An unknown error occurred while parsing the .xlsx file.'']
   \<and> snd (extractXlsx mixedWorld ''half.xlsx'') = Inr [errorResult ''half.xlsx'' 1 ''Bad sheet'']
   \<and> snd (extractPptx mixedWorld ''good.pptx'') =
       Inr [\<lparr>type = Some Text, fileName = ''good.pptx'', page = 1,
              contents = Some (''a'' @ [CHR 0x0A] @ ''b''), error = None, isFullPage = None\<rparr>]
   \<and> snd (extractPptx mixedWorld ''bad.pptx'') = Inr [errorResult ''bad.pptx'' 1 ''Not a deck'']
   \<and> (\<exists>l rs. extractPdf mixedWorld ''good.pdf'' None None = (l, Inr rs) \<and> rs \<noteq> [])
   \<and> snd (extractPdf mixedWorld ''bad.pdf'' None None) = Inr [errorResult ''bad.pdf'' 1 ''Command failed'']
   \<and> extractFile mixedWorld Map.empty ''good''
         (Some \<lparr>extension = Some ''.DOCX'', pdf = None, progressCallback = None\<rparr>)
       = ([MammothExtractRawText ''good''], Inr [sampleText ''good'' 1 ''hello''])
   \<and> (\<exists>l rs. extractFile mixedWorld Map.empty ''good''
         (Some \<lparr>extension = Some ''.XLSX'', pdf = None, progressCallback = None\<rparr>) = (l, Inr rs)
        \<and> rs \<noteq> [])"
proof -
  have b: "path_basename mixedWorld p = p" for p
    by (simp add: mixedWorld_def quietWorld_def)
  have o1: "mammoth_extractRawText mixedWorld ''bad.docx'' = Inl (ErrorObj ''Corrupted zip'')"
    and o2: "XLSX_readFile mixedWorld ''good.xlsx'' = Inr [Inr ''a,b'', Inr ''c'']
               \<and> firstThrow [Inr ''a,b'', Inr ''c''] = None"
    and o3: "XLSX_readFile mixedWorld ''bad.xlsx'' = Inl (NonError ''oops'')
               \<or> (\<exists>sheets. XLSX_readFile mixedWorld ''bad.xlsx'' = Inr sheets
                     \<and> firstThrow sheets = Some (NonError ''oops''))"
    and o3': "XLSX_readFile mixedWorld ''half.xlsx'' = Inl (ErrorObj ''Bad sheet'')
               \<or> (\<exists>sheets. XLSX_readFile mixedWorld ''half.xlsx'' = Inr sheets
                     \<and> firstThrow sheets = Some (ErrorObj ''Bad sheet''))"
    and o4: "PptxParser_extractText mixedWorld ''good.pptx'' = Inr [[''a'', ''b'']]"
    and o5: "PptxParser_extractText mixedWorld ''bad.pptx'' = Inl (ErrorObj ''Not a deck'')"
    and o6: "new_Poppler mixedWorld = Inr ()"
    and o7: "new_Poppler mixedWorld = Inr () \<and> pdfInfo mixedWorld ''bad.pdf'' = Inl (ErrorObj ''Command failed'')"
    by (simp_all add: mixedWorld_def quietWorld_def)
  note t = extractors_result_count
  have 1: "snd (extractDocx mixedWorld ''bad.docx'') = Inr [errorResult ''bad.docx'' 1 ''Corrupted zip'']"
    using t [of mixedWorld "''bad.docx''", THEN conjunct2, THEN conjunct2, THEN conjunct2, THEN conjunct2, THEN conjunct2, THEN conjunct2, THEN conjunct1, rule_format, OF o1]
    unfolding b by (simp add: message_or_def)
  have 2: "snd (extractXlsx mixedWorld ''good.xlsx'') =
       Inr [\<lparr>type = Some Csv, fileName = ''good.xlsx'', page = 1, contents = Some ''a,b'',
              error = None, isFullPage = None\<rparr>,
            \<lparr>type = Some Csv, fileName = ''good.xlsx'', page = 2, contents = Some ''c'',
              error = None, isFullPage = None\<rparr>]"
    using t [of mixedWorld "''good.xlsx''", THEN conjunct2, THEN conjunct2, THEN conjunct2, THEN conjunct2, THEN conjunct1, rule_format, OF o2]
    unfolding b by (simp add: enumerate_simps)
  have 3: "snd (extractXlsx mixedWorld ''bad.xlsx'') =
       Inr [errorResult ''bad.xlsx'' 1 ''An unknown error occurred while parsing the .xlsx file.'']"
    using t [of mixedWorld "''bad.xlsx''", THEN conjunct2, THEN conjunct2, THEN conjunct2, THEN conjunct2, THEN conjunct2, THEN conjunct2, THEN conjunct2, THEN conjunct1, rule_format, OF o3]
    unfolding b by (simp add: message_or_def)
  have s3: "snd (extractXlsx mixedWorld ''half.xlsx'') = Inr [errorResult ''half.xlsx'' 1 ''Bad sheet'']"
    using t [of mixedWorld "''half.xlsx''", THEN conjunct2, THEN conjunct2, THEN conjunct2, THEN conjunct2, THEN conjunct2, THEN conjunct2, THEN conjunct2, THEN conjunct1, rule_format, OF o3']
    unfolding b by (simp add: message_or_def)
  have 4: "snd (extractPptx mixedWorld ''good.pptx'') =
       Inr [\<lparr>type = Some Text, fileName = ''good.pptx'', page = 1,
              contents = Some (''a'' @ [CHR 0x0A] @ ''b''), error = None, isFullPage = None\<rparr>]"
    using t [of mixedWorld "''good.pptx''", THEN conjunct2, THEN conjunct2, THEN conjunct2, THEN conjunct2, THEN conjunct2, THEN conjunct1, rule_format, OF o4]
    unfolding b by (simp add: enumerate_simps)
  have 5: "snd (extractPptx mixedWorld ''bad.pptx'') = Inr [errorResult ''bad.pptx'' 1 ''Not a deck'']"
    using t [of mixedWorld "''bad.pptx''", THEN conjunct2, THEN conjunct2, THEN conjunct2, THEN conjunct2, THEN conjunct2, THEN conjunct2, THEN conjunct2, THEN conjunct2, THEN conjunct1, rule_format, OF o5]
    unfolding b by (simp add: message_or_def)
  have 6: "\<exists>l rs. extractPdf mixedWorld ''good.pdf'' None None = (l, Inr rs) \<and> rs \<noteq> []"
    by (rule t [of mixedWorld "''good.pdf''" None None, THEN conjunct2, THEN conjunct1, rule_format, OF o6])
  have 7: "snd (extractPdf mixedWorld ''bad.pdf'' None None) = Inr [errorResult ''bad.pdf'' 1 ''Command failed'']"
    using t [of mixedWorld "''bad.pdf''" None None, THEN conjunct2, THEN conjunct2, THEN conjunct2, THEN conjunct2, THEN conjunct2, THEN conjunct2, THEN conjunct2, THEN conjunct2, THEN conjunct2, THEN conjunct1, rule_format, OF o7]
    unfolding b by (simp add: message_or_def)
  have e: "resolvedExt mixedWorld ''good'' (Some \<lparr>extension = Some ''.DOCX'', pdf = None, progressCallback = None\<rparr>)
             = ''.docx''"
    by (simp add: resolvedExt_def lower_dot_DOCX)
  have d: "extractDocx mixedWorld ''good'' = ([MammothExtractRawText ''good''], Inr [sampleText ''good'' 1 ''hello''])"
    by (simp add: extractDocx_def mixedWorld_def quietWorld_def ext_call_def bind_Inr try_catch_Inr ret_def
          trim_hello sampleText_def)
  have n: "Map.empty (resolvedExt mixedWorld ''good''
             (Some \<lparr>extension = Some ''.DOCX'', pdf = None, progressCallback = None\<rparr>)) = None"
    by simp
  have 8: "extractFile mixedWorld Map.empty ''good''
         (Some \<lparr>extension = Some ''.DOCX'', pdf = None, progressCallback = None\<rparr>)
       = ([MammothExtractRawText ''good''], Inr [sampleText ''good'' 1 ''hello''])"
    using t [of mixedWorld "''good''" _ _ Map.empty
                "Some \<lparr>extension = Some ''.DOCX'', pdf = None, progressCallback = None\<rparr>", THEN conjunct2, THEN conjunct2, THEN conjunct2, THEN conjunct2, THEN conjunct2, THEN conjunct2, THEN conjunct2, THEN conjunct2, THEN conjunct2, THEN conjunct2, THEN conjunct1, rule_format, OF n]
    unfolding e d by simp
  have e2: "resolvedExt mixedWorld ''good'' (Some \<lparr>extension = Some ''.XLSX'', pdf = None, progressCallback = None\<rparr>)
             = ''.xlsx''"
    by (simp add: resolvedExt_def lower_dot_XLSX)
  have n2: "Map.empty (resolvedExt mixedWorld ''good''
             (Some \<lparr>extension = Some ''.XLSX'', pdf = None, progressCallback = None\<rparr>)) = None
           \<and> new_Poppler mixedWorld = Inr ()"
    using o6 by simp
  have x: "XLSX_readFile mixedWorld ''good'' \<noteq> Inr []"
    by (simp add: mixedWorld_def quietWorld_def)
  have 9: "\<exists>l rs. extractFile mixedWorld Map.empty ''good''
         (Some \<lparr>extension = Some ''.XLSX'', pdf = None, progressCallback = None\<rparr>) = (l, Inr rs)
        \<and> rs \<noteq> []"
    using t [of mixedWorld "''good''" _ _ Map.empty
                "Some \<lparr>extension = Some ''.XLSX'', pdf = None, progressCallback = None\<rparr>", THEN conjunct2, THEN conjunct2, THEN conjunct2, THEN conjunct2, THEN conjunct2, THEN conjunct2, THEN conjunct2, THEN conjunct2, THEN conjunct2, THEN conjunct2, THEN conjunct2, rule_format, OF n2]
    unfolding e2 using x by auto
  from 1 2 3 s3 4 5 6 7 8 9 show ?thesis by (intro conjI)
qed

end
